theory Spec2Isabelle
  imports Complex_Main "HOL-Library.Word" "HOL-Library.AList"
begin

unbundle bit_operations_syntax

section \<open>Python values shared by all modules\<close>

text \<open>
  A Python \<open>bytes\<close> object is a \<^typ>\<open>string\<close>: a list of 8-bit characters. Where the
  source works on the integer value of a byte (\<open>bytes_read[0]\<close>, \<open>for b in data\<close>) the
  model uses \<^const>\<open>of_char\<close> into \<^typ>\<open>nat\<close>, and Python's unbounded integers are
  \<^typ>\<open>nat\<close> or \<^typ>\<open>int\<close>.

  Every exception the modelled code can raise is a value of \<open>error\<close>; \<open>PyException\<close> is
  the plain \<open>Exception\<close> raised by \<open>check\<close>, \<open>checked_cast\<close> and the parser, whose message
  is not modelled.
\<close>

datatype error =
    StopIteration
  | KeyError
  | IndexError
  | ValueError
  | TypeError
  | AttributeError
  | AssertionError
  | ZeroDivisionError
  | RecursionError
  | StructError
  | TokenError
  | NameError
  | PyException

text \<open>\<open>tokenizer._bytes_to_string\<close>: \<open>struct.pack("{}B".format(len(cs)), *cs)\<close>. Packing
  with format \<open>B\<close> raises \<open>struct.error\<close> for an integer outside \<open>0..255\<close>.\<close>

definition bytes_to_string :: "int list \<Rightarrow> error + string" where
  "bytes_to_string cs =
     (if list_all (\<lambda>c. 0 \<le> c \<and> c < 256) cs then Inr (map char_of cs) else Inl StructError)"


text \<open>Python numbers: \<open>int\<close> is unbounded; a \<open>float\<close> carries the exact rational
  value of its literal and of the arithmetic done on it (binary rounding is outside this
  model).\<close>

datatype pynum = PyInt int | PyFloat rat

text \<open>\<open>base.py\<close>: the four delimiter tokens (module-level singletons), the token and
  object classes. The containers of the source hold any Python object, so tokens and
  objects form one type. \<open>NullObject\<close> is the class itself, which is what the object
  parser stores for the word \<open>null\<close>; \<open>null_object_instance\<close> is the module-level
  instance. A \<open>DictObject\<close> wraps a Python \<open>dict\<close>: an association list with distinct
  keys in insertion order.\<close>

datatype pyval =
    PyNone
  | OpenDictToken
  | CloseDictToken
  | OpenArrayToken
  | CloseArrayToken
  | StringObject string
  | NameObject string
  | WordToken string
  | NumberObject string
  | ArrayObject "pyval list"
  | DictObject "(string \<times> pyval) list"
  | BooleanObject bool
  | NullObject
  | null_object_instance
  | IndirectRef pyval pyval

text \<open>\<open>IndirectObject(obj_num, gen_num, object)\<close> and
  \<open>StreamObject(obj_num, gen_num, object, start, length)\<close>.\<close>

datatype indirect =
    IndirectObject int int pyval
  | StreamObject int int pyval nat pynum


section \<open>The byte source\<close>

text \<open>The binary stream behind \<open>PDFParser\<close> is an in-memory \<open>io.BytesIO\<close>: its buffer and
  its position. \<open>read(n)\<close> (for \<open>n \<ge> 0\<close>) returns at most \<open>n\<close> bytes from the position
  and advances by what it returned; \<open>seek(offset)\<close> rejects a negative offset with
  \<open>ValueError\<close>; \<open>seek(offset, SEEK_CUR)\<close> moves relative to the position, not below 0. A
  position beyond the end is legal and reads as empty.\<close>

record bytes_io =
  buf :: string
  pos :: nat

definition tell :: "bytes_io \<Rightarrow> nat" where
  "tell s = pos s"

definition read :: "nat \<Rightarrow> bytes_io \<Rightarrow> string \<times> bytes_io" where
  "read n s = (let bs = take n (drop (pos s) (buf s)) in (bs, s\<lparr>pos := pos s + length bs\<rparr>))"

definition seek :: "int \<Rightarrow> bytes_io \<Rightarrow> (error + unit) \<times> bytes_io" where
  "seek offset s = (if offset < 0 then (Inl ValueError, s) else (Inr (), s\<lparr>pos := nat offset\<rparr>))"

definition seek_cur :: "int \<Rightarrow> bytes_io \<Rightarrow> bytes_io" where
  "seek_cur offset s = s\<lparr>pos := nat (max 0 (int (pos s) + offset))\<rparr>"

text \<open>Reading one byte.\<close>

lemma read_one:
  "read (Suc 0) s =
     (if pos s < length (buf s) then ([buf s ! pos s], s\<lparr>pos := pos s + 1\<rparr>) else ([], s))"
proof (cases "pos s < length (buf s)")
  case True
  then have "drop (pos s) (buf s) = buf s ! pos s # drop (Suc (pos s)) (buf s)"
    by (simp add: Cons_nth_drop_Suc)
  with True show ?thesis
    by (simp add: read_def)
next
  case False
  then show ?thesis
    by (simp add: read_def)
qed


section \<open>security.py: the RC4 stream cipher\<close>

text \<open>The tuple assignment \<open>p[i], p[j] = p[j], p[i]\<close>: both right-hand sides are read
  first, then \<open>p[i]\<close> and \<open>p[j]\<close> are written in this order.\<close>

definition swap :: "nat list \<Rightarrow> nat \<Rightarrow> nat \<Rightarrow> nat list" where
  "swap p i j = (p[i := p ! j])[j := p ! i]"

text \<open>One round of the loop of \<open>_init_ARC4\<close>; \<open>& 0xFF\<close> on a non-negative integer is
  \<open>mod 256\<close>.\<close>

definition ksa_step :: "nat list \<Rightarrow> nat \<Rightarrow> nat list \<times> nat \<Rightarrow> nat list \<times> nat" where
  "ksa_step key i = (\<lambda>(permutation, j).
     let j' = (j + permutation ! i + key ! (i mod length key)) mod 256
     in (swap permutation i j', j'))"

text \<open>\<open>_init_ARC4\<close>. With an empty key, \<open>i % len_key\<close> raises \<open>ZeroDivisionError\<close> in the
  first round.\<close>

definition init_ARC4 :: "string \<Rightarrow> error + nat list" where
  "init_ARC4 key =
     (if length key = 0 then Inl ZeroDivisionError
      else Inr (fst (fold (ksa_step (map of_char key)) [0..<256] ([0..<256], 0))))"

text \<open>The loop body shared by \<open>ARC4\<close> and \<open>ARC4_iterator.chunk\<close>: the bytes appended to
  \<open>ret\<close>, and the permutation and the two indices after the last byte.\<close>

fun arc4_loop :: "nat list \<Rightarrow> nat \<Rightarrow> nat \<Rightarrow> nat list \<Rightarrow> nat list \<times> nat list \<times> nat \<times> nat" where
  "arc4_loop permutation i j [] = ([], permutation, i, j)"
| "arc4_loop permutation i j (b # bs) =
     (let i' = (i + 1) mod 256;
          j' = (j + permutation ! i') mod 256;
          permutation' = swap permutation i' j';
          cipher_byte = permutation' ! ((permutation' ! i' + permutation' ! j') mod 256);
          (ret, final) = arc4_loop permutation' i' j' bs
      in ((b XOR cipher_byte) # ret, final))"

definition ARC4 :: "string \<Rightarrow> string \<Rightarrow> error + string" where
  "ARC4 key data =
     (case init_ARC4 key of
        Inl e \<Rightarrow> Inl e
      | Inr permutation \<Rightarrow>
          bytes_to_string (map int (fst (arc4_loop permutation 0 0 (map of_char data)))))"

text \<open>\<open>ARC4_iterator\<close>: the cipher state kept between chunks.\<close>

record ARC4_iterator =
  permutation :: "nat list"
  it_i :: nat
  it_j :: nat

definition ARC4_iterator_init :: "string \<Rightarrow> error + ARC4_iterator" where
  "ARC4_iterator_init key =
     (case init_ARC4 key of
        Inl e \<Rightarrow> Inl e
      | Inr p \<Rightarrow> Inr \<lparr>permutation = p, it_i = 0, it_j = 0\<rparr>)"

definition chunk :: "ARC4_iterator \<Rightarrow> string \<Rightarrow> (error + string) \<times> ARC4_iterator" where
  "chunk ec data =
     (case arc4_loop (permutation ec) (it_i ec) (it_j ec) (map of_char data) of
        (ret, p, i, j) \<Rightarrow>
          (bytes_to_string (map int ret), \<lparr>permutation = p, it_i = i, it_j = j\<rparr>))"


section \<open>parser.py: the raw windows of a stream\<close>

definition BUF_SIZE :: int where
  "BUF_SIZE = 40"

text \<open>\<open>len(range(0, stop, step))\<close> for a positive step.\<close>

definition range_len :: "int \<Rightarrow> int \<Rightarrow> nat" where
  "range_len stop step = (if stop \<le> 0 then 0 else nat ((stop - 1) div step + 1))"

text \<open>The \<open>for\<close> loop of \<open>_stream_window\<close>: one \<open>read(BUF_SIZE)\<close> per round.\<close>

fun read_windows :: "nat \<Rightarrow> bytes_io \<Rightarrow> string list \<times> bytes_io" where
  "read_windows 0 s = ([], s)"
| "read_windows (Suc n) s =
     (let (c, s1) = read (nat BUF_SIZE) s;
          (cs, s2) = read_windows n s1
      in (c # cs, s2))"

text \<open>\<open>PDFParser._stream_window\<close>, a generator: the chunks it yields, the exception that
  ends it if any, and the byte source afterwards. \<open>range\<close> and \<open>read\<close> raise \<open>TypeError\<close>
  for a \<open>float\<close> length; an \<open>IndirectObject\<close> has no attribute \<open>length\<close>.\<close>

definition stream_window_inner :: "indirect \<Rightarrow> bytes_io \<Rightarrow> string list \<times> error option \<times> bytes_io" where
  "stream_window_inner stream_obj s =
     (case stream_obj of
        IndirectObject _ _ _ \<Rightarrow> ([], Some AttributeError, s)
      | StreamObject _ _ _ _ (PyFloat _) \<Rightarrow> ([], Some TypeError, s)
      | StreamObject _ _ _ _ (PyInt len) \<Rightarrow>
          (let (cs, s1) = read_windows (range_len (len - BUF_SIZE) BUF_SIZE) s;
               (c, s2) = read (nat (len mod BUF_SIZE)) s1
           in (cs @ [c], None, s2)))"

text \<open>An \<open>Encrypter\<close> is represented by its method \<open>get_rc4_key(obj_num, gen_num)\<close>, whose
  MD5 digest comes from \<open>hashlib\<close>. \<open>encrypt_chunks\<close> is the loop
  \<open>for c in self._stream_window(stream_obj): yield ec.chunk(c)\<close> over the chunks already
  read.\<close>

type_synonym Encrypter = "int \<Rightarrow> int \<Rightarrow> string"

fun encrypt_chunks :: "ARC4_iterator \<Rightarrow> string list \<Rightarrow> string list \<times> error option" where
  "encrypt_chunks ec [] = ([], None)"
| "encrypt_chunks ec (c # cs) =
     (case chunk ec c of
        (Inl e, _) \<Rightarrow> ([], Some e)
      | (Inr c', ec') \<Rightarrow> (case encrypt_chunks ec' cs of (cs', e) \<Rightarrow> (c' # cs', e)))"

text \<open>\<open>PDFParser.stream_window\<close>.\<close>

definition stream_window ::
    "indirect \<Rightarrow> Encrypter option \<Rightarrow> bytes_io \<Rightarrow> string list \<times> error option \<times> bytes_io" where
  "stream_window stream_obj encrypter s =
     (case stream_obj of
        IndirectObject _ _ _ \<Rightarrow> ([], Some AttributeError, s)
      | StreamObject obj_num gen_num _ start _ \<Rightarrow>
          (let s0 = s\<lparr>pos := start\<rparr> in
           case encrypter of
             None \<Rightarrow> stream_window_inner stream_obj s0
           | Some get_rc4_key \<Rightarrow>
               (case ARC4_iterator_init (get_rc4_key obj_num gen_num) of
                  Inl e \<Rightarrow> ([], Some e, s0)
                | Inr ec \<Rightarrow>
                    (case stream_window_inner stream_obj s0 of
                       (cs, e, s1) \<Rightarrow>
                         (case encrypt_chunks ec cs of
                            (cs', None) \<Rightarrow> (cs', e, s1)
                          | (cs', Some e') \<Rightarrow> (cs', Some e', s1))))))"


section \<open>tokenizer.py\<close>

subsection \<open>StreamWrapper: one byte of pushback\<close>

text \<open>\<open>StreamWrapper\<close> with the \<open>_get\<close> of \<open>BinaryStreamWrapper\<close>: \<open>_prev\<close> is \<open>-1\<close> until a
  byte has been read. A \<open>DeflateStreamWrapper\<close> is the same wrapper over the decompressed
  bytes (\<open>zlib\<close> is outside this model).\<close>

record StreamWrapper =
  sw_stream :: bytes_io
  sw_prev :: int
  sw_unget :: bool

definition BinaryStreamWrapper :: "bytes_io \<Rightarrow> StreamWrapper" where
  "BinaryStreamWrapper stream = \<lparr>sw_stream = stream, sw_prev = - 1, sw_unget = False\<rparr>"

text \<open>\<open>StreamWrapper.__next__\<close>.\<close>

definition wrapper_next :: "StreamWrapper \<Rightarrow> (error + int) \<times> StreamWrapper" where
  "wrapper_next w =
     (if sw_unget w then (Inr (sw_prev w), w\<lparr>sw_unget := False\<rparr>)
      else (case fst (read 1 (sw_stream w)) of
              [] \<Rightarrow> (Inl StopIteration, w\<lparr>sw_stream := snd (read 1 (sw_stream w))\<rparr>)
            | b # _ \<Rightarrow> (Inr (of_char b),
                       w\<lparr>sw_stream := snd (read 1 (sw_stream w)), sw_prev := of_char b\<rparr>)))"

text \<open>\<open>StreamWrapper.unget\<close>.\<close>

definition unget :: "StreamWrapper \<Rightarrow> StreamWrapper" where
  "unget w = (if sw_prev w = - 1 \<or> sw_unget w then w else w\<lparr>sw_unget := True\<rparr>)"

subsection \<open>Byte constants\<close>

abbreviation (input) "BACKSPACE \<equiv> (0x08 :: int)"
abbreviation (input) "FORM_FEED \<equiv> (0x0C :: int)"
abbreviation (input) "LINE_FEED \<equiv> (0x0A :: int)"
abbreviation (input) "CARRIAGE_RETURN \<equiv> (0x0D :: int)"
abbreviation (input) "HORIZONTAL_TAB \<equiv> (0x09 :: int)"
abbreviation (input) "DOT \<equiv> (0x2E :: int)"
abbreviation (input) "BACKSLASH \<equiv> (0x5C :: int)"
abbreviation (input) "PERCENT_SIGN \<equiv> (0x25 :: int)"
abbreviation (input) "LEFT_PARENTHESIS \<equiv> (0x28 :: int)"
abbreviation (input) "RIGHT_PARENTHESIS \<equiv> (0x29 :: int)"
abbreviation (input) "ZERO_DIGIT \<equiv> (0x30 :: int)"
abbreviation (input) "NINE_DIGIT \<equiv> (0x39 :: int)"
abbreviation (input) "SLASH \<equiv> (0x2F :: int)"
abbreviation (input) "LESS_THAN \<equiv> (0x3C :: int)"
abbreviation (input) "GREATER_THAN \<equiv> (0x3E :: int)"
abbreviation (input) "LEFT_SQUARE_BRACKET \<equiv> (0x5B :: int)"
abbreviation (input) "RIGHT_SQUARE_BRACKET \<equiv> (0x5D :: int)"
abbreviation (input) "A_UPPER \<equiv> (0x41 :: int)"
abbreviation (input) "Z_UPPER \<equiv> (0x5A :: int)"
abbreviation (input) "A_LOWER \<equiv> (0x61 :: int)"
abbreviation (input) "B_LOWER \<equiv> (0x62 :: int)"
abbreviation (input) "F_LOWER \<equiv> (0x66 :: int)"
abbreviation (input) "N_LOWER \<equiv> (0x6E :: int)"
abbreviation (input) "R_LOWER \<equiv> (0x72 :: int)"
abbreviation (input) "T_LOWER \<equiv> (0x74 :: int)"
abbreviation (input) "Z_LOWER \<equiv> (0x7A :: int)"
abbreviation (input) "STAR \<equiv> (0x2A :: int)"

text \<open>\<open>c in bs\<close> for an integer \<open>c\<close> and a bytes object \<open>bs\<close>.\<close>

definition in_bytes :: "int \<Rightarrow> int list \<Rightarrow> bool" where
  "in_bytes c bs = (c \<in> set bs)"

text \<open>\<open>DELIMITERS = b"()<>[]{}/%"\<close>, \<open>WHITESPACES = b"\x00\t\n\x0c\r "\<close> and the three byte
  strings tested inline, as their byte values.\<close>

definition DELIMITERS :: "int list" where
  "DELIMITERS = [0x28, 0x29, 0x3C, 0x3E, 0x5B, 0x5D, 0x7B, 0x7D, 0x2F, 0x25]"

definition WHITESPACES :: "int list" where
  "WHITESPACES = [0x00, 0x09, 0x0A, 0x0C, 0x0D, 0x20]"

definition NUMBER_START :: "int list" where
  \<comment> \<open>\<open>b"+-.0123456789"\<close>\<close>
  "NUMBER_START = [0x2B, 0x2D, 0x2E, 0x30, 0x31, 0x32, 0x33, 0x34, 0x35, 0x36, 0x37, 0x38, 0x39]"

definition DECIMAL_DIGITS :: "int list" where
  \<comment> \<open>\<open>b"0123456789"\<close>\<close>
  "DECIMAL_DIGITS = [0x30, 0x31, 0x32, 0x33, 0x34, 0x35, 0x36, 0x37, 0x38, 0x39]"

definition HEX_DIGITS :: "int list" where
  \<comment> \<open>\<open>b"0123456789ABCDEFabcdef"\<close>\<close>
  "HEX_DIGITS = [0x30, 0x31, 0x32, 0x33, 0x34, 0x35, 0x36, 0x37, 0x38, 0x39,
                 0x41, 0x42, 0x43, 0x44, 0x45, 0x46, 0x61, 0x62, 0x63, 0x64, 0x65, 0x66]"

definition START_SKIPPED :: "int list" where
  \<comment> \<open>\<open>b" \r\n"\<close>\<close>
  "START_SKIPPED = [0x20, 0x0D, 0x0A]"

subsection \<open>The states\<close>

text \<open>The fields of a \<open>StringState\<close>; \<open>_ddd\<close> is \<open>None\<close> or the list of digits of an octal
  escape read so far.\<close>

record StringState_fields =
  s_cs :: "int list"
  s_esc :: bool
  s_esc_cr :: bool
  s_lparen_count :: int
  s_ddd :: "int list option"

datatype State =
    StartState
  | NameObjectState "int list"
  | OpenDictOrHexStringState
  | CloseDictState
  | StringState StringState_fields
  | CommentState bool
  | DigitState "int list" bool
  | WordState "int list"
  | HexStringState "int list"

text \<open>The constructors \<open>NameObjectState()\<close>, \<open>StringState()\<close>, \<open>CommentState()\<close>,
  \<open>DigitState(c)\<close>.\<close>

definition new_NameObjectState :: State where
  "new_NameObjectState = NameObjectState [SLASH]"

definition new_StringState :: State where
  "new_StringState = StringState
     \<lparr>s_cs = [], s_esc = False, s_esc_cr = False, s_lparen_count = 0, s_ddd = None\<rparr>"

definition new_CommentState :: State where
  "new_CommentState = CommentState False"

definition new_DigitState :: "int \<Rightarrow> State" where
  "new_DigitState c = DigitState [c] (c = DOT)"

record PDFTokenizer =
  tk_stream_wrapper :: StreamWrapper
  tk_state :: State

definition new_PDFTokenizer :: "StreamWrapper \<Rightarrow> PDFTokenizer" where
  "new_PDFTokenizer stream_wrapper = \<lparr>tk_stream_wrapper = stream_wrapper, tk_state = StartState\<rparr>"

text \<open>\<open>PDFTokenizer.create\<close>.\<close>

definition create :: "bytes_io \<Rightarrow> PDFTokenizer" where
  "create stream = new_PDFTokenizer (BinaryStreamWrapper stream)"

definition set_state :: "State \<Rightarrow> PDFTokenizer \<Rightarrow> PDFTokenizer" where
  "set_state st tk = tk\<lparr>tk_state := st\<rparr>"

definition tk_unget :: "PDFTokenizer \<Rightarrow> PDFTokenizer" where
  "tk_unget tk = tk\<lparr>tk_stream_wrapper := unget (tk_stream_wrapper tk)\<rparr>"

text \<open>\<open>bytes.fromhex(hex_string.decode("ascii"))\<close> on a byte string of even length: two
  hexadecimal digits per byte, \<open>ValueError\<close> (which \<open>UnicodeDecodeError\<close> is) on anything
  else.\<close>

definition hex_value :: "int \<Rightarrow> int option" where
  "hex_value c =
     (if 0x30 \<le> c \<and> c \<le> 0x39 then Some (c - 0x30)
      else if 0x41 \<le> c \<and> c \<le> 0x46 then Some (c - 0x41 + 10)
      else if 0x61 \<le> c \<and> c \<le> 0x66 then Some (c - 0x61 + 10)
      else None)"

fun fromhex :: "int list \<Rightarrow> error + string" where
  "fromhex [] = Inr []"
| "fromhex [c] = Inl ValueError"
| "fromhex (c # d # cs) =
     (case (hex_value c, hex_value d) of
        (Some h, Some l) \<Rightarrow> (case fromhex cs of Inl e \<Rightarrow> Inl e | Inr bs \<Rightarrow> Inr (char_of (16 * h + l) # bs))
      | _ \<Rightarrow> Inl ValueError)"

text \<open>A handler returns the token (or \<open>None\<close>) or raises, and leaves the tokenizer with
  its new state and pushback flag. \<open>emit\<close> packs the accumulated bytes into a token.\<close>

definition emit :: "(string \<Rightarrow> pyval) \<Rightarrow> int list \<Rightarrow> PDFTokenizer \<Rightarrow> (error + pyval option) \<times> PDFTokenizer" where
  "emit mk cs tk =
     (case bytes_to_string cs of Inl e \<Rightarrow> (Inl e, tk) | Inr bs \<Rightarrow> (Inr (Some (mk bs)), tk))"

text \<open>\<open>StartState.handle\<close>.\<close>

definition StartState_handle :: "int \<Rightarrow> PDFTokenizer \<Rightarrow> (error + pyval option) \<times> PDFTokenizer" where
  "StartState_handle c tk =
     (if c = SLASH then (Inr None, set_state new_NameObjectState tk)
      else if c = LESS_THAN then (Inr None, set_state OpenDictOrHexStringState tk)
      else if c = GREATER_THAN then (Inr None, set_state CloseDictState tk)
      else if c = LEFT_SQUARE_BRACKET then (Inr (Some OpenArrayToken), tk)
      else if c = RIGHT_SQUARE_BRACKET then (Inr (Some CloseArrayToken), tk)
      else if c = LEFT_PARENTHESIS then (Inr None, set_state new_StringState tk)
      else if c = PERCENT_SIGN then (Inr None, set_state new_CommentState tk)
      else if in_bytes c NUMBER_START then (Inr None, set_state (new_DigitState c) tk)
      else if in_bytes c START_SKIPPED then (Inr None, tk)
      else (Inr None, set_state (WordState [c]) tk))"

text \<open>\<open>NameObjectState.handle\<close>: the bytes are packed before \<open>unget\<close> and \<open>set_state\<close>.\<close>

definition NameObjectState_handle ::
    "int list \<Rightarrow> int \<Rightarrow> PDFTokenizer \<Rightarrow> (error + pyval option) \<times> PDFTokenizer" where
  "NameObjectState_handle cs c tk =
     (if in_bytes c DELIMITERS \<or> in_bytes c WHITESPACES then
        (case bytes_to_string cs of
           Inl e \<Rightarrow> (Inl e, tk)
         | Inr ret \<Rightarrow> (Inr (Some (NameObject ret)), set_state StartState (tk_unget tk)))
      else (Inr None, set_state (NameObjectState (cs @ [c])) tk))"

text \<open>\<open>OpenDictOrHexStringState.handle\<close>.\<close>

definition OpenDictOrHexStringState_handle ::
    "int \<Rightarrow> PDFTokenizer \<Rightarrow> (error + pyval option) \<times> PDFTokenizer" where
  "OpenDictOrHexStringState_handle c tk =
     (if c = LESS_THAN then (Inr (Some OpenDictToken), set_state StartState tk)
      else if in_bytes c HEX_DIGITS then (Inr None, set_state (HexStringState [c]) tk)
      else if c = GREATER_THAN then (Inr (Some (StringObject [])), set_state StartState tk)
      else (Inl TokenError, tk))"

text \<open>\<open>CloseDictState.handle\<close>.\<close>

definition CloseDictState_handle :: "int \<Rightarrow> PDFTokenizer \<Rightarrow> (error + pyval option) \<times> PDFTokenizer" where
  "CloseDictState_handle c tk =
     (if c = GREATER_THAN then (Inr (Some CloseDictToken), set_state StartState tk)
      else (Inl TokenError, tk))"

text \<open>\<open>StringState._handle_esc\<close>.\<close>

definition handle_esc :: "int \<Rightarrow> StringState_fields \<Rightarrow> StringState_fields" where
  "handle_esc c st =
     (if c = B_LOWER then st\<lparr>s_cs := s_cs st @ [BACKSPACE]\<rparr>
      else if c = F_LOWER then st\<lparr>s_cs := s_cs st @ [FORM_FEED]\<rparr>
      else if c = N_LOWER then st\<lparr>s_cs := s_cs st @ [LINE_FEED]\<rparr>
      else if c = R_LOWER then st\<lparr>s_cs := s_cs st @ [CARRIAGE_RETURN]\<rparr>
      else if c = T_LOWER then st\<lparr>s_cs := s_cs st @ [HORIZONTAL_TAB]\<rparr>
      else if c = LEFT_PARENTHESIS then st\<lparr>s_cs := s_cs st @ [LEFT_PARENTHESIS]\<rparr>
      else if c = RIGHT_PARENTHESIS then st\<lparr>s_cs := s_cs st @ [RIGHT_PARENTHESIS]\<rparr>
      else if c = BACKSLASH then st\<lparr>s_cs := s_cs st @ [BACKSLASH]\<rparr>
      else if c = CARRIAGE_RETURN then st\<lparr>s_esc_cr := True\<rparr>
      else if c = LINE_FEED then st
      else if ZERO_DIGIT \<le> c \<and> c \<le> NINE_DIGIT then st\<lparr>s_ddd := Some [c - ZERO_DIGIT]\<rparr>
      else st\<lparr>s_cs := s_cs st @ [BACKSLASH, c]\<rparr>)
     \<lparr>s_esc := False\<rparr>"

text \<open>\<open>StringState._handle_char\<close>.\<close>

definition handle_char :: "int \<Rightarrow> StringState_fields \<Rightarrow> bool \<times> StringState_fields" where
  "handle_char c st =
     (if c = LEFT_PARENTHESIS then
        (False, st\<lparr>s_lparen_count := s_lparen_count st + 1, s_cs := s_cs st @ [c]\<rparr>)
      else if c = RIGHT_PARENTHESIS then
        (if s_lparen_count st - 1 < 0 then (True, st\<lparr>s_lparen_count := s_lparen_count st - 1\<rparr>)
         else (False, st\<lparr>s_lparen_count := s_lparen_count st - 1, s_cs := s_cs st @ [c]\<rparr>))
      else if c = BACKSLASH then (False, st\<lparr>s_esc := True\<rparr>)
      else (False, st\<lparr>s_cs := s_cs st @ [c]\<rparr>))"

text \<open>The first branch of \<open>StringState.handle\<close>, taken when \<open>self._ddd\<close> is a non-empty
  list: the new fields and whether \<open>tokenizer.unget()\<close> was called.\<close>

definition handle_ddd :: "int list \<Rightarrow> int \<Rightarrow> StringState_fields \<Rightarrow> StringState_fields \<times> bool" where
  "handle_ddd ddd c st =
     (if length ddd = 1 then
        (if ZERO_DIGIT \<le> c \<and> c \<le> NINE_DIGIT then (st\<lparr>s_ddd := Some (ddd @ [c - ZERO_DIGIT])\<rparr>, False)
         else (st\<lparr>s_cs := s_cs st @ [ddd ! 0], s_ddd := None\<rparr>, True))
      else if length ddd = 2 then
        (if ZERO_DIGIT \<le> c \<and> c \<le> NINE_DIGIT then (st\<lparr>s_ddd := Some (ddd @ [c - ZERO_DIGIT])\<rparr>, False)
         else (st\<lparr>s_cs := s_cs st @ [ddd ! 0 * 8 + ddd ! 1], s_ddd := None\<rparr>, True))
      else if length ddd = 3 then
        (st\<lparr>s_cs := s_cs st @ [ddd ! 0 * 64 + ddd ! 1 * 8 + ddd ! 2], s_ddd := None\<rparr>, True)
      else (st, False))"

text \<open>Python's truth value of \<open>self._ddd\<close>: \<open>None\<close> and the empty list are false.\<close>

definition ddd_truthy :: "int list option \<Rightarrow> bool" where
  "ddd_truthy ddd = (case ddd of None \<Rightarrow> False | Some ds \<Rightarrow> ds \<noteq> [])"

text \<open>\<open>StringState.handle\<close>.\<close>

definition StringState_handle ::
    "StringState_fields \<Rightarrow> int \<Rightarrow> PDFTokenizer \<Rightarrow> (error + pyval option) \<times> PDFTokenizer" where
  "StringState_handle st c tk =
     (let (ret, st', ungot) =
        (if ddd_truthy (s_ddd st) then
           (case handle_ddd (the (s_ddd st)) c st of (st', ungot) \<Rightarrow> (False, st', ungot))
         else if s_esc st then (False, handle_esc c st, False)
         else if s_esc_cr st then
           (if c = LINE_FEED then (False, st\<lparr>s_esc_cr := False\<rparr>, False)
            else (case handle_char c st of (ret, st') \<Rightarrow> (ret, st', False)))
         else (case handle_char c st of (ret, st') \<Rightarrow> (ret, st', False)));
          tk' = set_state (StringState st') (if ungot then tk_unget tk else tk)
      in if ret then
           (case bytes_to_string (s_cs st') of
              Inl e \<Rightarrow> (Inl e, set_state StartState tk')
            | Inr bs \<Rightarrow> (Inr (Some (StringObject bs)), set_state StartState tk'))
         else (Inr None, tk'))"

text \<open>\<open>CommentState.handle\<close>.\<close>

definition CommentState_handle ::
    "bool \<Rightarrow> int \<Rightarrow> PDFTokenizer \<Rightarrow> (error + pyval option) \<times> PDFTokenizer" where
  "CommentState_handle cr c tk =
     (if c = CARRIAGE_RETURN then (Inr None, set_state (CommentState True) tk)
      else if c = LINE_FEED then (Inr None, set_state StartState tk)
      else if cr then (Inr None, set_state StartState (tk_unget tk))
      else (Inr None, tk))"

text \<open>\<open>DigitState.handle\<close>.\<close>

definition DigitState_handle ::
    "int list \<Rightarrow> bool \<Rightarrow> int \<Rightarrow> PDFTokenizer \<Rightarrow> (error + pyval option) \<times> PDFTokenizer" where
  "DigitState_handle cs dot c tk =
     (if c = DOT then
        (if dot then emit NumberObject cs (set_state (new_DigitState c) tk)
         else (Inr None, set_state (DigitState (cs @ [c]) True) tk))
      else if in_bytes c DECIMAL_DIGITS then (Inr None, set_state (DigitState (cs @ [c]) dot) tk)
      else emit NumberObject cs (set_state StartState (tk_unget tk)))"

text \<open>\<open>WordState.handle\<close>.\<close>

definition WordState_handle ::
    "int list \<Rightarrow> int \<Rightarrow> PDFTokenizer \<Rightarrow> (error + pyval option) \<times> PDFTokenizer" where
  "WordState_handle cs c tk =
     (if (A_LOWER \<le> c \<and> c \<le> Z_LOWER) \<or> (A_UPPER \<le> c \<and> c \<le> Z_UPPER) \<or> c = STAR then
        (Inr None, set_state (WordState (cs @ [c])) tk)
      else emit WordToken cs (set_state StartState (tk_unget tk)))"

text \<open>\<open>HexStringState.handle\<close>.\<close>

definition HexStringState_handle ::
    "int list \<Rightarrow> int \<Rightarrow> PDFTokenizer \<Rightarrow> (error + pyval option) \<times> PDFTokenizer" where
  "HexStringState_handle cs c tk =
     (if in_bytes c HEX_DIGITS then (Inr None, set_state (HexStringState (cs @ [c])) tk)
      else if c = GREATER_THAN then
        (case bytes_to_string cs of
           Inl e \<Rightarrow> (Inl e, tk)
         | Inr _ \<Rightarrow>
             (case fromhex (if length cs mod 2 = 1 then cs @ [0x30] else cs) of
                Inl e \<Rightarrow> (Inl e, tk)
              | Inr ret \<Rightarrow> (Inr (Some (StringObject ret)), set_state StartState tk)))
      else (Inl TokenError, tk))"

text \<open>\<open>self._state.handle(self, c)\<close>: dispatch on the class of the current state.\<close>

definition handle :: "int \<Rightarrow> PDFTokenizer \<Rightarrow> (error + pyval option) \<times> PDFTokenizer" where
  "handle c tk =
     (case tk_state tk of
        StartState \<Rightarrow> StartState_handle c tk
      | NameObjectState cs \<Rightarrow> NameObjectState_handle cs c tk
      | OpenDictOrHexStringState \<Rightarrow> OpenDictOrHexStringState_handle c tk
      | CloseDictState \<Rightarrow> CloseDictState_handle c tk
      | StringState st \<Rightarrow> StringState_handle st c tk
      | CommentState cr \<Rightarrow> CommentState_handle cr c tk
      | DigitState cs dot \<Rightarrow> DigitState_handle cs dot c tk
      | WordState cs \<Rightarrow> WordState_handle cs c tk
      | HexStringState cs \<Rightarrow> HexStringState_handle cs c tk)"

subsection \<open>The token iterator\<close>

text \<open>One round of the loop of \<open>PDFTokenizer.__iter__\<close>: fetch a byte from the wrapper and
  hand it to the current state.\<close>

definition tokenizer_step :: "PDFTokenizer \<Rightarrow> (error + pyval option) \<times> PDFTokenizer" where
  "tokenizer_step tk =
     (case wrapper_next (tk_stream_wrapper tk) of
        (Inl e, w) \<Rightarrow> (Inl e, tk\<lparr>tk_stream_wrapper := w\<rparr>)
      | (Inr c, w) \<Rightarrow> handle c (tk\<lparr>tk_stream_wrapper := w\<rparr>))"

text \<open>What gets smaller in every round: the bytes left, then the pushback flag, then
  whether the state is one that may push a byte back.\<close>

definition may_unget :: "State \<Rightarrow> nat" where
  "may_unget st =
     (case st of
        NameObjectState _ \<Rightarrow> 1
      | StringState f \<Rightarrow> (if ddd_truthy (s_ddd f) then 1 else 0)
      | CommentState cr \<Rightarrow> (if cr then 1 else 0)
      | DigitState _ _ \<Rightarrow> 1
      | WordState _ \<Rightarrow> 1
      | _ \<Rightarrow> 0)"

definition tk_measure :: "PDFTokenizer \<Rightarrow> nat" where
  "tk_measure tk =
     3 * (length (buf (sw_stream (tk_stream_wrapper tk))) - pos (sw_stream (tk_stream_wrapper tk)))
     + (if sw_unget (tk_stream_wrapper tk) then 2 else 0)
     + may_unget (tk_state tk)"

lemma may_unget_le: "may_unget st \<le> 1"
  by (simp add: may_unget_def split: State.splits)

text \<open>A handler never touches the byte source, and it pushes a byte back only from a
  state that may do so, into one that may not.\<close>

definition handled :: "PDFTokenizer \<Rightarrow> PDFTokenizer \<Rightarrow> bool" where
  "handled tk tk' =
     (sw_stream (tk_stream_wrapper tk') = sw_stream (tk_stream_wrapper tk) \<and>
      (if sw_unget (tk_stream_wrapper tk')
       then may_unget (tk_state tk') = 0 \<and> may_unget (tk_state tk) = 1
       else True))"

lemma handled_set_state [simp]:
  "\<not> sw_unget (tk_stream_wrapper tk) \<Longrightarrow> handled tk (set_state st tk)"
  by (simp add: handled_def set_state_def)

lemma handled_refl [simp]: "\<not> sw_unget (tk_stream_wrapper tk) \<Longrightarrow> handled tk tk"
  by (simp add: handled_def)

lemma handled_unget:
  "may_unget (tk_state tk) = 1 \<Longrightarrow> may_unget st = 0 \<Longrightarrow> handled tk (set_state st (tk_unget tk))"
  by (simp add: handled_def set_state_def tk_unget_def unget_def)

lemma handle_ddd_ungot: "handle_ddd ddd c st = (st', True) \<Longrightarrow> s_ddd st' = None"
  by (auto simp: handle_ddd_def split: if_splits)

lemma StringState_handled:
  assumes "\<not> sw_unget (tk_stream_wrapper tk)" and "tk_state tk = StringState st"
    and "StringState_handle st c tk = (r, tk')"
  shows "handled tk tk'"
proof (cases "ddd_truthy (s_ddd st)")
  case True
  obtain st' ungot where d: "handle_ddd (the (s_ddd st)) c st = (st', ungot)"
    by (cases "handle_ddd (the (s_ddd st)) c st")
  show ?thesis
  proof (cases ungot)
    case ungot: True
    with d have "handle_ddd (the (s_ddd st)) c st = (st', True)"
      by simp
    then have "s_ddd st' = None"
      by (rule handle_ddd_ungot)
    then have "may_unget (StringState st') = 0"
      by (simp add: may_unget_def ddd_truthy_def)
    moreover from True assms(2) have "may_unget (tk_state tk) = 1"
      by (simp add: may_unget_def)
    ultimately have "handled tk (set_state (StringState st') (tk_unget tk))"
      by (rule handled_unget [rotated])
    with assms(3) True d ungot show ?thesis
      by (simp add: StringState_handle_def)
  next
    case False
    with assms True d show ?thesis
      by (auto simp: StringState_handle_def set_state_def handled_def split: sum.splits)
  qed
next
  case False
  with assms show ?thesis
    by (auto simp: StringState_handle_def set_state_def handled_def Let_def
        split: sum.splits prod.splits if_splits)
qed

lemma handle_handled:
  assumes "\<not> sw_unget (tk_stream_wrapper tk)" and "handle c tk = (r, tk')"
  shows "handled tk tk'"
proof (cases "tk_state tk")
  case StartState
  with assms show ?thesis
    by (auto simp: handle_def StartState_handle_def split: if_splits)
next
  case (NameObjectState cs)
  then have "may_unget (tk_state tk) = 1"
    by (simp add: may_unget_def)
  with assms NameObjectState show ?thesis
    by (auto simp: handle_def NameObjectState_handle_def handled_unget may_unget_def
        split: if_splits sum.splits)
next
  case OpenDictOrHexStringState
  with assms show ?thesis
    by (auto simp: handle_def OpenDictOrHexStringState_handle_def split: if_splits)
next
  case CloseDictState
  with assms show ?thesis
    by (auto simp: handle_def CloseDictState_handle_def split: if_splits)
next
  case (StringState st)
  with assms StringState_handled show ?thesis
    by (simp add: handle_def)
next
  case (CommentState cr)
  with assms show ?thesis
    by (auto simp: handle_def CommentState_handle_def handled_unget may_unget_def split: if_splits)
next
  case (DigitState cs dot)
  then have "may_unget (tk_state tk) = 1"
    by (simp add: may_unget_def)
  with assms DigitState show ?thesis
    by (auto simp: handle_def DigitState_handle_def emit_def handled_unget may_unget_def
        split: if_splits sum.splits)
next
  case (WordState cs)
  then have "may_unget (tk_state tk) = 1"
    by (simp add: may_unget_def)
  with assms WordState show ?thesis
    by (auto simp: handle_def WordState_handle_def emit_def handled_unget may_unget_def
        split: if_splits sum.splits)
next
  case (HexStringState cs)
  with assms show ?thesis
    by (auto simp: handle_def HexStringState_handle_def split: if_splits sum.splits)
qed

lemma handle_measure:
  assumes "\<not> sw_unget (tk_stream_wrapper tk)" and "handle c tk = (r, tk')"
  shows "sw_stream (tk_stream_wrapper tk') = sw_stream (tk_stream_wrapper tk)"
    and "(if sw_unget (tk_stream_wrapper tk') then 2 else 0) + may_unget (tk_state tk')
           \<le> 1 + may_unget (tk_state tk)"
  using handle_handled [OF assms] may_unget_le [of "tk_state tk'"]
  by (auto simp: handled_def split: if_splits)

lemma tokenizer_step_measure:
  assumes "tokenizer_step tk = (Inr r, tk')"
  shows "tk_measure tk' < tk_measure tk"
proof (cases "sw_unget (tk_stream_wrapper tk)")
  case True
  let ?tk1 = "tk\<lparr>tk_stream_wrapper := (tk_stream_wrapper tk)\<lparr>sw_unget := False\<rparr>\<rparr>"
  from True assms have h: "handle (sw_prev (tk_stream_wrapper tk)) ?tk1 = (Inr r, tk')"
    by (simp add: tokenizer_step_def wrapper_next_def)
  from handle_measure [OF _ h] True show ?thesis
    by (simp add: tk_measure_def)
next
  case False
  let ?s = "sw_stream (tk_stream_wrapper tk)"
  from False assms have more: "pos ?s < length (buf ?s)"
    by (cases "pos ?s < length (buf ?s)") (simp_all add: tokenizer_step_def wrapper_next_def read_one)
  let ?c = "of_char (buf ?s ! pos ?s)"
  let ?tk1 = "tk\<lparr>tk_stream_wrapper :=
      (tk_stream_wrapper tk)\<lparr>sw_stream := ?s\<lparr>pos := pos ?s + 1\<rparr>, sw_prev := ?c\<rparr>\<rparr>"
  from False assms more have h: "handle ?c ?tk1 = (Inr r, tk')"
    by (simp add: tokenizer_step_def wrapper_next_def read_one)
  from handle_measure [OF _ h] False more show ?thesis
    by (simp add: tk_measure_def)
qed

text \<open>\<open>PDFTokenizer.__iter__\<close>, a generator: the tokens it yields, each with the tokenizer
  as it is when the token is yielded, then the exception that ends the iteration
  (\<open>StopIteration\<close> when the bytes are used up) and the tokenizer at that point.\<close>

function tokenizer_iter :: "PDFTokenizer \<Rightarrow> (pyval \<times> PDFTokenizer) list \<times> error \<times> PDFTokenizer" where
  "tokenizer_iter tk =
     (case tokenizer_step tk of
        (Inl e, tk') \<Rightarrow> ([], e, tk')
      | (Inr None, tk') \<Rightarrow> tokenizer_iter tk'
      | (Inr (Some token), tk') \<Rightarrow>
          (case tokenizer_iter tk' of (yielded, fin) \<Rightarrow> ((token, tk') # yielded, fin)))"
  by pat_completeness auto
termination
  by (relation "measure tk_measure") (auto simp: tokenizer_step_measure [OF sym])

declare tokenizer_iter.simps [simp del]


section \<open>parser.py: ObjectParser\<close>

text \<open>\<open>base.checked_cast(NameObject, val)\<close> as used for dictionary keys, and the loop
  \<open>for i in range(1, len(dict_objs), 2)\<close> of the \<open>CloseDictToken\<close> branch over the
  objects after the sentinel: a key that is not a name fails the cast, a key without a
  value raises \<open>IndexError\<close>. \<open>d[key.bs] = v\<close> is \<open>AList.update\<close>.\<close>

fun dict_of_pairs :: "pyval list \<Rightarrow> (string \<times> pyval) list \<Rightarrow> error + (string \<times> pyval) list" where
  "dict_of_pairs [] d = Inr d"
| "dict_of_pairs [k] d = (case k of NameObject _ \<Rightarrow> Inl IndexError | _ \<Rightarrow> Inl PyException)"
| "dict_of_pairs (k # v # rest) d =
     (case k of
        NameObject bs \<Rightarrow> dict_of_pairs rest (AList.update bs v d)
      | _ \<Rightarrow> Inl PyException)"

text \<open>One round of the loop of \<open>ObjectParser.parse\<close> either returns the parsed object or
  goes on with the stack of open containers (a Python list, top last).\<close>

datatype parse_step = Return pyval | Continue "pyval list list"

text \<open>\<open>if stack: stack[-1].append(obj) else: return obj\<close>.\<close>

definition attach :: "pyval \<Rightarrow> pyval list list \<Rightarrow> parse_step" where
  "attach obj stack =
     (if stack \<noteq> [] then Continue (butlast stack @ [last stack @ [obj]]) else Return obj)"

text \<open>The branch for the word \<open>R\<close>: two \<open>stack[-1].pop()\<close>, each raising \<open>IndexError\<close> on
  an empty list.\<close>

definition indirect_ref_step :: "pyval list list \<Rightarrow> error + parse_step" where
  "indirect_ref_step stack =
     (if stack = [] then Inl IndexError
      else if last stack = [] then Inl IndexError
      else if butlast (last stack) = [] then Inl IndexError
      else let gen_num = last (last stack);
               obj_num = last (butlast (last stack));
               obj = IndirectRef obj_num gen_num
           in Inr (attach obj (butlast stack @ [butlast (butlast (last stack))])))"

text \<open>The body of the loop of \<open>ObjectParser.parse\<close> for one token. The second test for
  \<open>b"true"\<close> is the source's.\<close>

definition parse_token :: "pyval \<Rightarrow> pyval list list \<Rightarrow> error + parse_step" where
  "parse_token token stack =
     (case token of
        OpenDictToken \<Rightarrow> Inr (Continue (stack @ [[token]]))
      | CloseDictToken \<Rightarrow>
          (if stack = [] then Inl IndexError
           else if last stack = [] then Inl IndexError
           else if hd (last stack) \<noteq> OpenDictToken then Inl AssertionError
           else (case dict_of_pairs (tl (last stack)) [] of
                   Inl e \<Rightarrow> Inl e
                 | Inr d \<Rightarrow> Inr (attach (DictObject d) (butlast stack))))
      | OpenArrayToken \<Rightarrow> Inr (Continue (stack @ [[token]]))
      | CloseArrayToken \<Rightarrow>
          (if stack = [] then Inl IndexError
           else if last stack = [] then Inl IndexError
           else if hd (last stack) \<noteq> OpenArrayToken then Inl AssertionError
           else Inr (attach (ArrayObject (tl (last stack))) (butlast stack)))
      | StringObject _ \<Rightarrow> Inr (attach token stack)
      | NumberObject _ \<Rightarrow> Inr (attach token stack)
      | NameObject _ \<Rightarrow> Inr (attach token stack)
      | WordToken bs \<Rightarrow>
          (if bs = ''true'' then Inr (attach (BooleanObject True) stack)
           else if bs = ''true'' then Inr (attach (BooleanObject False) stack)
           else if bs = ''null'' then Inr (attach NullObject stack)
           else if bs = ''R'' then indirect_ref_step stack
           else Inl AssertionError)
      | _ \<Rightarrow> Inl AssertionError)"

text \<open>The loop of \<open>ObjectParser.parse\<close> over what the token iterator yields; \<open>next\<close> on the
  exhausted iterator raises the exception that ended it. The result comes with the
  tokenizer as it is when \<open>parse\<close> returns or raises.\<close>

fun parse_loop ::
    "pyval list list \<Rightarrow> (pyval \<times> PDFTokenizer) list \<Rightarrow> error \<times> PDFTokenizer \<Rightarrow>
     (error + pyval) \<times> PDFTokenizer" where
  "parse_loop stack [] (e, tk) = (Inl e, tk)"
| "parse_loop stack ((token, tk) # rest) fin =
     (case parse_token token stack of
        Inl e \<Rightarrow> (Inl e, tk)
      | Inr (Return obj) \<Rightarrow> (Inr obj, tk)
      | Inr (Continue stack') \<Rightarrow> parse_loop stack' rest fin)"

text \<open>\<open>ObjectParser(tokenizer).parse()\<close>.\<close>

definition parse :: "PDFTokenizer \<Rightarrow> (error + pyval) \<times> PDFTokenizer" where
  "parse tokenizer = (case tokenizer_iter tokenizer of (yielded, fin) \<Rightarrow> parse_loop [] yielded fin)"

text \<open>\<open>PDFParser.read_object\<close>: the object and the byte source afterwards.\<close>

definition read_object :: "bytes_io \<Rightarrow> (error + pyval) \<times> bytes_io" where
  "read_object stream =
     (case parse (create stream) of (r, tk) \<Rightarrow> (r, sw_stream (tk_stream_wrapper tk)))"


section \<open>parser.py: lines, numbers and dictionaries\<close>

text \<open>\<open>PDFParser.readline\<close>. The loop collects the bytes it read; packing them again with
  \<open>_bytes_to_string\<close> cannot fail, so the line is the list of these bytes.\<close>

function readline_loop :: "bool \<Rightarrow> string \<Rightarrow> bytes_io \<Rightarrow> string \<times> bytes_io" where
  "readline_loop cr cs s =
     (case fst (read 1 s) of
        [] \<Rightarrow> (cs, snd (read 1 s))
      | c # _ \<Rightarrow>
          (if of_char c = LINE_FEED then (cs, snd (read 1 s))
           else if of_char c = CARRIAGE_RETURN then readline_loop True cs (snd (read 1 s))
           else if cr then (cs, seek_cur (- 1) (snd (read 1 s)))
           else readline_loop cr (cs @ [c]) (snd (read 1 s))))"
  by pat_completeness auto
termination
  by (relation "measure (\<lambda>(cr, cs, s). length (buf s) - pos s)")
     (auto simp: read_one split: if_splits)

declare readline_loop.simps [simp del]

definition readline :: "bytes_io \<Rightarrow> string \<times> bytes_io" where
  "readline s = readline_loop False [] s"

text \<open>\<open>bytes.split()\<close> without arguments: the maximal runs of bytes that are not ASCII
  whitespace.\<close>

definition is_space :: "char \<Rightarrow> bool" where
  "is_space c = (c \<in> set [CHR 0x20, CHR 0x09, CHR 0x0A, CHR 0x0B, CHR 0x0C, CHR 0x0D])"

fun split_loop :: "string \<Rightarrow> string \<Rightarrow> string list" where
  "split_loop [] w = (if w = [] then [] else [w])"
| "split_loop (c # cs) w =
     (if is_space c then (if w = [] then split_loop cs [] else w # split_loop cs [])
      else split_loop cs (w @ [c]))"

definition split :: "string \<Rightarrow> string list" where
  "split bs = split_loop bs []"

text \<open>\<open>int(bs)\<close> for a bytes object: surrounding whitespace is ignored, then an optional
  sign and decimal digits, where single underscores may stand between digits. Anything
  else raises \<open>ValueError\<close>.\<close>

definition is_digit :: "char \<Rightarrow> bool" where
  "is_digit c = (0x30 \<le> (of_char c :: int) \<and> (of_char c :: int) \<le> 0x39)"

definition digit_value :: "char \<Rightarrow> int" where
  "digit_value c = of_char c - 0x30"

fun digits_value :: "string \<Rightarrow> int \<Rightarrow> bool \<Rightarrow> int option" where
  "digits_value [] acc after_digit = (if after_digit then Some acc else None)"
| "digits_value (c # cs) acc after_digit =
     (if is_digit c then digits_value cs (10 * acc + digit_value c) True
      else if c = CHR ''_'' \<and> after_digit then digits_value cs acc False
      else None)"

definition strip :: "string \<Rightarrow> string" where
  "strip bs = rev (dropWhile is_space (rev (dropWhile is_space bs)))"

definition split_sign :: "string \<Rightarrow> bool \<times> string" where
  "split_sign bs =
     (case bs of
        [] \<Rightarrow> (False, [])
      | c # rest \<Rightarrow>
          (if c = CHR ''-'' then (True, rest)
           else if c = CHR ''+'' then (False, rest)
           else (False, bs)))"

definition py_int :: "string \<Rightarrow> error + int" where
  "py_int bs =
     (case split_sign (strip bs) of
        (negative, ds) \<Rightarrow>
          (case digits_value ds 0 False of
             None \<Rightarrow> Inl ValueError
           | Some v \<Rightarrow> Inr (if negative then - v else v)))"

text \<open>\<open>float(bs)\<close> for the byte strings a \<open>DigitState\<close> can put into a \<open>NumberObject\<close>: an
  optional sign and digits around one decimal point, at least one digit in all. The
  value is the exact decimal value (see \<open>pynum\<close>). Such byte strings hold no exponent and
  no \<open>inf\<close> or \<open>nan\<close>, which are \<open>ValueError\<close> here.\<close>

definition digits_or_empty :: "string \<Rightarrow> int option" where
  "digits_or_empty ds = (if ds = [] then Some 0 else digits_value ds 0 False)"

definition py_float :: "string \<Rightarrow> error + rat" where
  "py_float bs =
     (case split_sign (strip bs) of
        (negative, ds) \<Rightarrow>
          (let int_part = takeWhile (\<lambda>c. c \<noteq> CHR ''.'') ds;
               frac_part = drop 1 (dropWhile (\<lambda>c. c \<noteq> CHR ''.'') ds);
               scale = 10 ^ length (filter is_digit frac_part)
           in if int_part = [] \<and> frac_part = [] then Inl ValueError
              else (case (digits_or_empty int_part, digits_or_empty frac_part) of
                      (Some i, Some f) \<Rightarrow>
                        Inr ((if negative then - 1 else 1) * (of_int (i * scale + f) / of_int scale))
                    | _ \<Rightarrow> Inl ValueError)))"

text \<open>\<open>NumberObject.value\<close>.\<close>

definition number_value :: "string \<Rightarrow> error + pynum" where
  "number_value bs =
     (if CHR ''.'' \<in> set bs then
        (case py_float bs of Inl e \<Rightarrow> Inl e | Inr q \<Rightarrow> Inr (PyFloat q))
      else (case py_int bs of Inl e \<Rightarrow> Inl e | Inr n \<Rightarrow> Inr (PyInt n)))"

text \<open>The attribute \<open>value\<close> of an object: the property of a \<open>NumberObject\<close>, the field of
  the named tuple \<open>BooleanObject\<close> (a \<open>bool\<close>, which Python treats as the integer 0 or 1);
  other classes have no such attribute.\<close>

definition value_of :: "pyval \<Rightarrow> error + pynum" where
  "value_of obj =
     (case obj of
        NumberObject bs \<Rightarrow> number_value bs
      | BooleanObject b \<Rightarrow> Inr (PyInt (if b then 1 else 0))
      | _ \<Rightarrow> Inl AttributeError)"

text \<open>\<open>obj[key]\<close>: \<open>DictObject.__getitem__\<close>; the other classes are not subscriptable.\<close>

definition getitem :: "pyval \<Rightarrow> string \<Rightarrow> error + pyval" where
  "getitem obj key =
     (case obj of
        DictObject d \<Rightarrow> (case map_of d key of None \<Rightarrow> Inl KeyError | Some v \<Rightarrow> Inr v)
      | _ \<Rightarrow> Inl TypeError)"

text \<open>Numbers as dictionary keys: an \<open>int\<close> and a \<open>float\<close> of the same value are the same
  key.\<close>

definition num_key :: "pynum \<Rightarrow> rat" where
  "num_key v = (case v of PyInt n \<Rightarrow> of_int n | PyFloat q \<Rightarrow> q)"


section \<open>parser.py: the cross-reference table\<close>

text \<open>\<open>readline\<close> never changes the buffer and never moves backwards; a non-empty line
  means that the position advanced and is within the buffer. The loops below terminate
  because of this.\<close>

lemma seek_cur_after_read:
  "pos s < length (buf s) \<Longrightarrow> seek_cur (- 1) (snd (read (Suc 0) s)) = s"
  by (simp add: read_one seek_cur_def)

lemma readline_loop_pos:
  "buf (snd (readline_loop cr cs s)) = buf s \<and>
   pos s + (length (fst (readline_loop cr cs s)) - length cs) \<le> pos (snd (readline_loop cr cs s)) \<and>
   length cs \<le> length (fst (readline_loop cr cs s)) \<and>
   (pos s \<le> length (buf s) \<longrightarrow> pos (snd (readline_loop cr cs s)) \<le> length (buf s)) \<and>
   (length (buf s) \<le> pos s \<longrightarrow> fst (readline_loop cr cs s) = cs)"
proof (induction cr cs s rule: readline_loop.induct)
  case (1 cr cs s)
  show ?case
  proof (cases "pos s < length (buf s)")
    case False
    then have eq: "readline_loop cr cs s = (cs, s)"
      by (subst readline_loop.simps) (simp add: read_one)
    show ?thesis
      unfolding eq by simp
  next
    case True
    let ?c = "buf s ! pos s"
    let ?s1 = "s\<lparr>pos := pos s + 1\<rparr>"
    from True have rd: "fst (read 1 s) = [?c]" "snd (read 1 s) = ?s1"
      by (simp_all add: read_one)
    consider (lf) "of_char ?c = LINE_FEED"
      | (cr) "of_char ?c \<noteq> LINE_FEED" "of_char ?c = CARRIAGE_RETURN"
      | (unread) "of_char ?c \<noteq> LINE_FEED" "of_char ?c \<noteq> CARRIAGE_RETURN" "cr"
      | (more) "of_char ?c \<noteq> LINE_FEED" "of_char ?c \<noteq> CARRIAGE_RETURN" "\<not> cr"
      by blast
    then show ?thesis
    proof cases
      case lf
      with rd have eq: "readline_loop cr cs s = (cs, ?s1)"
        by (subst readline_loop.simps) simp
      from True show ?thesis
        unfolding eq by simp
    next
      case cr
      with rd have eq: "readline_loop cr cs s = readline_loop True cs ?s1"
        by (subst readline_loop.simps) simp
      from "1.IH"(1) [OF rd(1) cr(1) cr(2)] rd True show ?thesis
        unfolding eq by auto
    next
      case unread
      with rd True have eq: "readline_loop cr cs s = (cs, s)"
        by (subst readline_loop.simps) (simp add: seek_cur_def)
      show ?thesis
        unfolding eq by simp
    next
      case more
      with rd have eq: "readline_loop cr cs s = readline_loop cr (cs @ [?c]) ?s1"
        by (subst readline_loop.simps) simp
      from "1.IH"(2) [OF rd(1) more(1) more(2) more(3)] rd True show ?thesis
        unfolding eq by auto
    qed
  qed
qed

lemma readline_buf [simp]: "buf (snd (readline s)) = buf s"
  using readline_loop_pos [of False "[]" s] by (simp add: readline_def)

lemma readline_pos: "pos s \<le> pos (snd (readline s))"
  using readline_loop_pos [of False "[]" s] by (simp add: readline_def)

lemma readline_advances:
  assumes "fst (readline s) \<noteq> []"
  shows "length (buf s) - pos (snd (readline s)) < length (buf s) - pos s"
proof -
  let ?r = "readline_loop False [] s"
  from assms have len: "0 < length (fst ?r)"
    by (simp add: readline_def)
  from readline_loop_pos [of False "[]" s]
  have adv: "pos s + length (fst ?r) \<le> pos (snd ?r)"
    and inside: "pos s \<le> length (buf s) \<Longrightarrow> pos (snd ?r) \<le> length (buf s)"
    and outside: "length (buf s) \<le> pos s \<Longrightarrow> fst ?r = []"
    by simp_all
  from len outside have "pos s < length (buf s)"
    by (cases "pos s < length (buf s)") auto
  with inside have "pos (snd ?r) \<le> length (buf s)"
    by simp
  with adv len show ?thesis
    unfolding readline_def by linarith
qed

text \<open>\<open>XrefEntry\<close>, a named tuple of three byte strings.\<close>

record XrefEntry =
  byte_offset :: string
  gen_number :: string
  kw :: string

type_synonym xref = "(int \<times> XrefEntry) list"

text \<open>\<open>off, n = map(int, line.split())\<close>: unpacking anything but two integers raises
  \<open>ValueError\<close>.\<close>

definition subsection_header :: "string \<Rightarrow> error + int \<times> int" where
  "subsection_header line =
     (case split line of
        [a, b] \<Rightarrow>
          (case py_int a of
             Inl e \<Rightarrow> Inl e
           | Inr off \<Rightarrow> (case py_int b of Inl e \<Rightarrow> Inl e | Inr n \<Rightarrow> Inr (off, n)))
      | _ \<Rightarrow> Inl ValueError)"

text \<open>The loop \<open>for i in range(off, off + n)\<close> of \<open>get_xref_table\<close>, by the index and the
  number of rounds left.\<close>

fun xref_entries :: "int \<Rightarrow> nat \<Rightarrow> xref \<Rightarrow> bytes_io \<Rightarrow> (error + xref) \<times> bytes_io" where
  "xref_entries i 0 entry_by_ref_num s = (Inr entry_by_ref_num, s)"
| "xref_entries i (Suc k) entry_by_ref_num s =
     (case split (fst (readline s)) of
        [a, b, c] \<Rightarrow>
          xref_entries (i + 1) k
            (AList.update i \<lparr>byte_offset = a, gen_number = b, kw = c\<rparr> entry_by_ref_num)
            (snd (readline s))
      | _ \<Rightarrow> (Inl ValueError, snd (readline s)))"

lemma xref_entries_pos:
  "buf (snd (xref_entries i k t s)) = buf s \<and> pos s \<le> pos (snd (xref_entries i k t s))"
proof (induction k arbitrary: i t s)
  case 0
  then show ?case by simp
next
  case (Suc k)
  show ?case
    using Suc.IH [of _ _ "snd (readline s)"] readline_pos [of s]
    by (auto split: list.splits intro: le_trans)
qed

text \<open>The \<open>while\<close> loop of \<open>get_xref_table\<close>.\<close>

function xref_loop :: "string \<Rightarrow> xref \<Rightarrow> bytes_io \<Rightarrow> (error + xref) \<times> bytes_io" where
  "xref_loop line entry_by_ref_num s =
     (if line \<noteq> [] \<and> line \<noteq> ''trailer'' then
        (case subsection_header line of
           Inl e \<Rightarrow> (Inl e, s)
         | Inr (off, n) \<Rightarrow>
             (case xref_entries off (nat n) entry_by_ref_num s of
                (Inl e, s1) \<Rightarrow> (Inl e, s1)
              | (Inr entries, s1) \<Rightarrow> xref_loop (fst (readline s1)) entries (snd (readline s1))))
      else (Inr entry_by_ref_num, s))"
  by pat_completeness auto
termination
proof (relation "measure (\<lambda>(line, t, s). 2 * (length (buf s) - pos s) + (if line = [] then 0 else 1))",
    goal_cases)
  case 1
  show ?case by simp
next
  case (2 line t s x2 off n x y entries)
  from 2(4) [symmetric] have s1: "buf y = buf s" "pos s \<le> pos y"
    using xref_entries_pos [of off "nat n" t s] by simp_all
  show ?case
  proof (cases "fst (readline y) = []")
    case True
    with 2(1) s1 readline_pos [of y] show ?thesis
      by (auto simp: 2(4) [symmetric])
  next
    case False
    from readline_advances [OF False] s1 show ?thesis
      by auto
  qed
qed

declare xref_loop.simps [simp del]

text \<open>\<open>seek(offset)\<close> with a number read from the file: a \<open>float\<close> is a \<open>TypeError\<close>.\<close>

definition seek_num :: "pynum \<Rightarrow> bytes_io \<Rightarrow> (error + unit) \<times> bytes_io" where
  "seek_num offset s = (case offset of PyInt n \<Rightarrow> seek n s | PyFloat _ \<Rightarrow> (Inl TypeError, s))"

text \<open>\<open>PDFParser.get_xref_table\<close>.\<close>

definition get_xref_table :: "pynum \<Rightarrow> bytes_io \<Rightarrow> (error + xref) \<times> bytes_io" where
  "get_xref_table start_xref s =
     (case seek_num start_xref s of
        (Inl e, s0) \<Rightarrow> (Inl e, s0)
      | (Inr _, s0) \<Rightarrow>
          (if fst (readline s0) \<noteq> ''xref'' then (Inl PyException, snd (readline s0))
           else xref_loop (fst (readline (snd (readline s0)))) []
                  (snd (readline (snd (readline s0))))))"

text \<open>\<open>PDFParser.read_dict\<close>: \<open>checked_cast(DictObject, self.read_object())\<close>.\<close>

definition read_dict :: "bytes_io \<Rightarrow> (error + pyval) \<times> bytes_io" where
  "read_dict s =
     (case read_object s of
        (Inl e, s1) \<Rightarrow> (Inl e, s1)
      | (Inr obj, s1) \<Rightarrow>
          (case obj of DictObject _ \<Rightarrow> (Inr obj, s1) | _ \<Rightarrow> (Inl PyException, s1)))"

text \<open>The inner loop of \<open>parse_document\<close>:
  \<open>for k, v in other_xref_table.items(): if k not in xref_table: xref_table[k] = v\<close>.\<close>

fun fill_missing :: "xref \<Rightarrow> xref \<Rightarrow> xref" where
  "fill_missing [] xref_table = xref_table"
| "fill_missing ((k, v) # other_xref_table) xref_table =
     fill_missing other_xref_table
       (if map_of xref_table k = None then AList.update k v xref_table else xref_table)"


section \<open>parser.py: PDFDocument\<close>

text \<open>A Python \<open>str\<close> is the list of its code points. \<open>font_parser.Font\<close>: the encoding and
  the widths are dictionaries keyed by character code.\<close>

type_synonym unicode = "nat list"

record Font =
  encoding :: "(int \<times> unicode) list"
  widths :: "(int \<times> pynum) list"
  missing_width :: pynum

text \<open>The state of a \<open>PDFDocument\<close> and of the \<open>PDFParser\<close> it owns, which is the byte
  source. \<open>_obj_by_num\<close> is the cache of resolved indirect objects, \<open>_offsets\<close> the stack
  of saved positions.\<close>

record PDFDocument =
  parser :: bytes_io
  doc_id :: "pyval option"
  doc_size :: pynum
  doc_root :: pyval
  encrypt :: "pyval option"
  xref_table :: xref
  obj_by_num :: "(rat \<times> indirect) list"
  offsets :: "nat list"
  encrypter :: "Encrypter option"
  font_by_ref :: "(string \<times> Font) list"

text \<open>\<open>PDFDocument.__init__\<close>.\<close>

definition new_PDFDocument ::
    "bytes_io \<Rightarrow> pyval option \<Rightarrow> pynum \<Rightarrow> pyval \<Rightarrow> pyval option \<Rightarrow> xref \<Rightarrow> PDFDocument" where
  "new_PDFDocument stream doc_id' size' root' encrypt' xref_table' =
     \<lparr>parser = stream, doc_id = doc_id', doc_size = size', doc_root = root',
      encrypt = encrypt', xref_table = xref_table', obj_by_num = [], offsets = [],
      encrypter = None, font_by_ref = []\<rparr>"

subsection \<open>parse_document\<close>

text \<open>The \<open>while True\<close> loop of \<open>parse_document\<close> that follows \<open>/Prev\<close>. Nothing bounds the
  number of rounds (a \<open>/Prev\<close> entry may point back to a section already read), so the
  result is an \<open>option\<close> and \<open>None\<close> stands for a loop that never ends. Only \<open>KeyError\<close>
  leaves the loop normally.\<close>

partial_function (option) prev_loop ::
    "pyval \<Rightarrow> xref \<Rightarrow> bytes_io \<Rightarrow> ((error + xref) \<times> bytes_io) option" where
  "prev_loop trailer_dict xref_table' s =
     (case getitem trailer_dict ''/Prev'' of
        Inl e \<Rightarrow> (if e = KeyError then Some (Inr xref_table', s) else Some (Inl e, s))
      | Inr prev \<Rightarrow>
          (case value_of prev of
             Inl e \<Rightarrow> Some (Inl e, s)
           | Inr other_start_xref \<Rightarrow>
               (case get_xref_table other_start_xref s of
                  (Inl e, s1) \<Rightarrow> Some (Inl e, s1)
                | (Inr other_xref_table, s1) \<Rightarrow>
                    (case read_dict s1 of
                       (Inl e, s2) \<Rightarrow> Some (Inl e, s2)
                     | (Inr trailer_dict', s2) \<Rightarrow>
                         prev_loop trailer_dict' (fill_missing other_xref_table xref_table') s2))))"

text \<open>The \<open>try\<close> statement of \<open>parse_document\<close> for \<open>/Encrypt\<close> and \<open>/ID\<close>.\<close>

definition encrypt_and_id :: "pyval \<Rightarrow> error + pyval option \<times> pyval option" where
  "encrypt_and_id trailer_dict =
     (case getitem trailer_dict ''/Encrypt'' of
        Inl e \<Rightarrow> (if e = KeyError then Inr (None, None) else Inl e)
      | Inr enc \<Rightarrow>
          (case getitem trailer_dict ''/ID'' of
             Inl e \<Rightarrow> Inl e
           | Inr i \<Rightarrow> Inr (Some enc, Some i)))"

text \<open>The entries \<open>/Size\<close> and \<open>/Root\<close> read at the head of \<open>parse_document\<close>.\<close>

definition size_and_root :: "pyval \<Rightarrow> error + pynum \<times> pyval" where
  "size_and_root trailer_dict =
     (case getitem trailer_dict ''/Size'' of
        Inl e \<Rightarrow> Inl e
      | Inr sz \<Rightarrow>
          (case value_of sz of
             Inl e \<Rightarrow> Inl e
           | Inr size' \<Rightarrow>
               (case getitem trailer_dict ''/Root'' of
                  Inl e \<Rightarrow> Inl e
                | Inr root' \<Rightarrow> Inr (size', root'))))"

text \<open>\<open>PDFParser.parse_document\<close>, from the offset that \<open>_find_start_xref\<close> returned (the
  backwards search for \<open>startxref\<close> is not part of this model).\<close>

definition parse_document :: "int \<Rightarrow> bytes_io \<Rightarrow> (error \<times> bytes_io + PDFDocument) option" where
  "parse_document start_xref s =
     (case get_xref_table (PyInt start_xref) s of
        (Inl e, s1) \<Rightarrow> Some (Inl (e, s1))
      | (Inr xref_table', s1) \<Rightarrow>
          (case read_dict s1 of
             (Inl e, s2) \<Rightarrow> Some (Inl (e, s2))
           | (Inr trailer_dict, s2) \<Rightarrow>
               (case size_and_root trailer_dict of
                  Inl e \<Rightarrow> Some (Inl (e, s2))
                | Inr (size', root') \<Rightarrow>
                    (case encrypt_and_id trailer_dict of
                       Inl e \<Rightarrow> Some (Inl (e, s2))
                     | Inr (encrypt', doc_id') \<Rightarrow>
                         (case prev_loop trailer_dict xref_table' s2 of
                            None \<Rightarrow> None
                          | Some (Inl e, s3) \<Rightarrow> Some (Inl (e, s3))
                          | Some (Inr merged, s3) \<Rightarrow>
                              Some (Inr (new_PDFDocument s3 doc_id' size' root' encrypt' merged)))))))"

subsection \<open>Indirect objects\<close>

text \<open>The attributes \<open>object\<close> of \<open>IndirectObject\<close> and \<open>StreamObject\<close>, and \<open>obj_num\<close> of
  \<open>IndirectRef\<close> (\<open>self._obj_num.value\<close>).\<close>

definition indirect_object :: "indirect \<Rightarrow> pyval" where
  "indirect_object obj =
     (case obj of IndirectObject _ _ object \<Rightarrow> object | StreamObject _ _ object _ _ \<Rightarrow> object)"

definition ref_obj_num :: "pyval \<Rightarrow> error + pynum" where
  "ref_obj_num ref =
     (case ref of IndirectRef obj_num _ \<Rightarrow> value_of obj_num | _ \<Rightarrow> Inl AttributeError)"

text \<open>\<open>self.xref_table[obj_num]\<close>: the keys of the table are integers.\<close>

definition xref_lookup :: "xref \<Rightarrow> pynum \<Rightarrow> XrefEntry option" where
  "xref_lookup table obj_num = map_of (map (\<lambda>(k, v). (of_int k :: rat, v)) table) (num_key obj_num)"

type_synonym 'a result = "(error + 'a) \<times> PDFDocument"

text \<open>The methods below call each other in a cycle
  (\<open>read_indirect_object\<close>, \<open>_read_stream\<close>, \<open>get_object\<close>, \<open>deref_object\<close>,
  \<open>_get_indirect_object\<close>, \<open>read_indirect_object\<close>). Each is defined over the method it
  calls; the cycle is closed below by the depth of recursion that the interpreter still
  allows.\<close>

text \<open>\<open>PDFDocument._get_indirect_object\<close>, over \<open>read_indirect_object\<close>.\<close>

definition get_indirect_object_with ::
    "(int \<Rightarrow> PDFDocument \<Rightarrow> indirect result) \<Rightarrow> pyval \<Rightarrow> PDFDocument \<Rightarrow> indirect result" where
  "get_indirect_object_with rio ref doc =
     (case ref_obj_num ref of
        Inl e \<Rightarrow> (Inl e, doc)
      | Inr obj_num \<Rightarrow>
          (case map_of (obj_by_num doc) (num_key obj_num) of
             Some obj \<Rightarrow> (Inr obj, doc)
           | None \<Rightarrow>
               (case xref_lookup (xref_table doc) obj_num of
                  None \<Rightarrow> (Inl KeyError, doc)
                | Some entry \<Rightarrow>
                    (case py_int (byte_offset entry) of
                       Inl e \<Rightarrow> (Inl e, doc)
                     | Inr offset \<Rightarrow>
                         (case rio offset doc of
                            (Inl e, doc1) \<Rightarrow> (Inl e, doc1)
                          | (Inr obj, doc1) \<Rightarrow>
                              (Inr obj,
                               doc1\<lparr>obj_by_num :=
                                 AList.update (num_key obj_num) obj (obj_by_num doc1)\<rparr>))))))"

text \<open>\<open>PDFDocument.deref_object\<close>: a \<open>KeyError\<close> from anywhere below becomes the null
  object; the document keeps whatever state it had when the exception was raised.\<close>

definition deref_object_with ::
    "(int \<Rightarrow> PDFDocument \<Rightarrow> indirect result) \<Rightarrow> pyval \<Rightarrow> PDFDocument \<Rightarrow> pyval result" where
  "deref_object_with rio obj doc =
     (case get_indirect_object_with rio obj doc of
        (Inr ind, doc1) \<Rightarrow> (Inr (indirect_object ind), doc1)
      | (Inl e, doc1) \<Rightarrow>
          (if e = KeyError then (Inr null_object_instance, doc1) else (Inl e, doc1)))"

text \<open>\<open>PDFDocument.get_object\<close>.\<close>

definition get_object_with ::
    "(int \<Rightarrow> PDFDocument \<Rightarrow> indirect result) \<Rightarrow> pyval \<Rightarrow> PDFDocument \<Rightarrow> pyval result" where
  "get_object_with rio obj doc =
     (case obj of
        IndirectRef _ _ \<Rightarrow> deref_object_with rio obj doc
      | _ \<Rightarrow> (Inr obj, doc))"

text \<open>Lifting an operation of the byte source to the document.\<close>

definition on_parser :: "(bytes_io \<Rightarrow> 'a \<times> bytes_io) \<Rightarrow> PDFDocument \<Rightarrow> 'a \<times> PDFDocument" where
  "on_parser f doc = (case f (parser doc) of (r, s) \<Rightarrow> (r, doc\<lparr>parser := s\<rparr>))"

text \<open>\<open>PDFDocument._read_endobj_word\<close>, and the same two lines inside \<open>_read_stream\<close>: a
  line, or the next one if the first is empty.\<close>

definition read_endobj_word :: "bytes_io \<Rightarrow> string \<times> bytes_io" where
  "read_endobj_word s =
     (if fst (readline s) = [] then readline (snd (readline s)) else readline s)"

text \<open>\<open>self.parser.seek(length, io.SEEK_CUR)\<close>.\<close>

definition seek_cur_num :: "pynum \<Rightarrow> bytes_io \<Rightarrow> (error + unit) \<times> bytes_io" where
  "seek_cur_num len s =
     (case len of PyInt n \<Rightarrow> (Inr (), seek_cur n s) | PyFloat _ \<Rightarrow> (Inl TypeError, s))"

text \<open>The part of \<open>_read_stream\<close> after the length is known: skip the payload, expect
  \<open>endstream\<close> and \<open>endobj\<close>.\<close>

definition skip_payload :: "pynum \<Rightarrow> bytes_io \<Rightarrow> (error + unit) \<times> bytes_io" where
  "skip_payload len s =
     (case seek_cur_num len s of
        (Inl e, s1) \<Rightarrow> (Inl e, s1)
      | (Inr _, s1) \<Rightarrow>
          (case read_endobj_word s1 of
             (end_stream_word, s2) \<Rightarrow>
               (if end_stream_word \<noteq> ''endstream'' then (Inl PyException, s2)
                else (case readline s2 of
                        (endobj_word, s3) \<Rightarrow>
                          (if endobj_word \<noteq> ''endobj'' then (Inl PyException, s3)
                           else (Inr (), s3))))))"

text \<open>\<open>PDFDocument._read_stream\<close>, over \<open>get_object\<close>: the start and the length of the
  payload.\<close>

definition read_stream_with ::
    "(pyval \<Rightarrow> PDFDocument \<Rightarrow> pyval result) \<Rightarrow> pyval \<Rightarrow> PDFDocument \<Rightarrow> (nat \<times> pynum) result" where
  "read_stream_with get_obj obj doc =
     (let start = tell (parser doc) in
      case obj of
        DictObject _ \<Rightarrow>
          (case getitem obj ''/Length'' of
             Inl e \<Rightarrow> (Inl e, doc)
           | Inr len_ref \<Rightarrow>
               (case get_obj len_ref doc of
                  (Inl e, doc1) \<Rightarrow> (Inl e, doc1)
                | (Inr length_obj, doc1) \<Rightarrow>
                    (case length_obj of
                       NumberObject bs \<Rightarrow>
                         (case number_value bs of
                            Inl e \<Rightarrow> (Inl e, doc1)
                          | Inr len \<Rightarrow>
                              (case on_parser (skip_payload len) doc1 of
                                 (Inl e, doc2) \<Rightarrow> (Inl e, doc2)
                               | (Inr _, doc2) \<Rightarrow> (Inr (start, len), doc2)))
                     | _ \<Rightarrow> (Inl PyException, doc1))))
      | _ \<Rightarrow> (Inl PyException, doc))"

text \<open>\<open>PDFParser.read_obj_line\<close> followed by \<open>map(int, ...)\<close>: the line must split into
  three words, the third being \<open>obj\<close>.\<close>

definition read_obj_line :: "bytes_io \<Rightarrow> (error + int \<times> int) \<times> bytes_io" where
  "read_obj_line s =
     (case readline s of
        (line, s1) \<Rightarrow>
          (case split line of
             [obj_num, gen_num, obj_word] \<Rightarrow>
               (if obj_word \<noteq> ''obj'' then (Inl AssertionError, s1)
                else (case py_int obj_num of
                        Inl e \<Rightarrow> (Inl e, s1)
                      | Inr n \<Rightarrow>
                          (case py_int gen_num of
                             Inl e \<Rightarrow> (Inl e, s1)
                           | Inr g \<Rightarrow> (Inr (n, g), s1))))
           | _ \<Rightarrow> (Inl ValueError, s1)))"

text \<open>The end of \<open>read_indirect_object\<close>: \<open>byte_offset = self._offsets.pop()\<close> and
  \<open>self.parser.seek(byte_offset)\<close>.\<close>

definition restore_position :: "indirect \<Rightarrow> PDFDocument \<Rightarrow> indirect result" where
  "restore_position ret doc =
     (if offsets doc = [] then (Inl IndexError, doc)
      else (case seek (int (last (offsets doc))) (parser doc) of
              (Inl e, s) \<Rightarrow> (Inl e, doc\<lparr>offsets := butlast (offsets doc), parser := s\<rparr>)
            | (Inr _, s) \<Rightarrow> (Inr ret, doc\<lparr>offsets := butlast (offsets doc), parser := s\<rparr>)))"

text \<open>\<open>PDFDocument.read_indirect_object\<close>, over \<open>get_object\<close>.\<close>

definition read_indirect_object_with ::
    "(pyval \<Rightarrow> PDFDocument \<Rightarrow> pyval result) \<Rightarrow> int \<Rightarrow> PDFDocument \<Rightarrow> indirect result" where
  "read_indirect_object_with get_obj offset doc =
     (let doc0 = doc\<lparr>offsets := offsets doc @ [tell (parser doc)]\<rparr> in
      case on_parser (seek offset) doc0 of
        (Inl e, doc1) \<Rightarrow> (Inl e, doc1)
      | (Inr _, doc1) \<Rightarrow>
          (case on_parser read_obj_line doc1 of
             (Inl e, doc2) \<Rightarrow> (Inl e, doc2)
           | (Inr (obj_num, gen_num), doc2) \<Rightarrow>
               (case on_parser read_object doc2 of
                  (Inl e, doc3) \<Rightarrow> (Inl e, doc3)
                | (Inr obj, doc3) \<Rightarrow>
                    (case on_parser read_endobj_word doc3 of
                       (endobj_word, doc4) \<Rightarrow>
                         (if endobj_word = ''stream'' then
                            (case read_stream_with get_obj obj doc4 of
                               (Inl e, doc5) \<Rightarrow> (Inl e, doc5)
                             | (Inr (start, len), doc5) \<Rightarrow>
                                 restore_position (StreamObject obj_num gen_num obj start len) doc5)
                          else if endobj_word = ''endobj'' then
                            restore_position (IndirectObject obj_num gen_num obj) doc4
                          else (Inl PyException, doc4))))))"

text \<open>The cycle closed: \<open>limit\<close> is the number of nested calls of \<open>read_indirect_object\<close>
  that the interpreter's recursion limit still allows; the call after that raises
  \<open>RecursionError\<close> (an indirect \<open>/Length\<close> may refer to its own stream).\<close>

primrec read_indirect_object :: "nat \<Rightarrow> int \<Rightarrow> PDFDocument \<Rightarrow> indirect result" where
  "read_indirect_object 0 = (\<lambda>offset doc. (Inl RecursionError, doc))"
| "read_indirect_object (Suc limit) =
     read_indirect_object_with (get_object_with (read_indirect_object limit))"

definition get_indirect_object :: "nat \<Rightarrow> pyval \<Rightarrow> PDFDocument \<Rightarrow> indirect result" where
  "get_indirect_object limit = get_indirect_object_with (read_indirect_object limit)"

definition deref_object :: "nat \<Rightarrow> pyval \<Rightarrow> PDFDocument \<Rightarrow> pyval result" where
  "deref_object limit = deref_object_with (read_indirect_object limit)"

definition get_object :: "nat \<Rightarrow> pyval \<Rightarrow> PDFDocument \<Rightarrow> pyval result" where
  "get_object limit = get_object_with (read_indirect_object limit)"


section \<open>pdf_operation.py and pdf_operator.py\<close>

subsection \<open>Arithmetic on Python numbers\<close>

text \<open>The result of an operation on two \<open>int\<close>s is an \<open>int\<close>; as soon as a \<open>float\<close> takes
  part it is a \<open>float\<close>. True division always gives a \<open>float\<close> and raises
  \<open>ZeroDivisionError\<close> for a zero divisor.\<close>

definition py_add :: "pynum \<Rightarrow> pynum \<Rightarrow> pynum" where
  "py_add a b =
     (case (a, b) of
        (PyInt x, PyInt y) \<Rightarrow> PyInt (x + y)
      | _ \<Rightarrow> PyFloat (num_key a + num_key b))"

definition py_sub :: "pynum \<Rightarrow> pynum \<Rightarrow> pynum" where
  "py_sub a b =
     (case (a, b) of
        (PyInt x, PyInt y) \<Rightarrow> PyInt (x - y)
      | _ \<Rightarrow> PyFloat (num_key a - num_key b))"

definition py_mul :: "pynum \<Rightarrow> pynum \<Rightarrow> pynum" where
  "py_mul a b =
     (case (a, b) of
        (PyInt x, PyInt y) \<Rightarrow> PyInt (x * y)
      | _ \<Rightarrow> PyFloat (num_key a * num_key b))"

definition py_neg :: "pynum \<Rightarrow> pynum" where
  "py_neg a = (case a of PyInt x \<Rightarrow> PyInt (- x) | PyFloat q \<Rightarrow> PyFloat (- q))"

definition py_abs :: "pynum \<Rightarrow> pynum" where
  "py_abs a = (case a of PyInt x \<Rightarrow> PyInt \<bar>x\<bar> | PyFloat q \<Rightarrow> PyFloat \<bar>q\<bar>)"

definition py_truediv :: "pynum \<Rightarrow> pynum \<Rightarrow> error + pynum" where
  "py_truediv a b =
     (if num_key b = 0 then Inl ZeroDivisionError else Inr (PyFloat (num_key a / num_key b)))"

definition py_less :: "pynum \<Rightarrow> pynum \<Rightarrow> bool" where
  "py_less a b = (num_key a < num_key b)"

text \<open>The truth value of a number, and \<open>int(x)\<close>, which truncates towards zero.\<close>

definition py_truthy :: "pynum \<Rightarrow> bool" where
  "py_truthy a = (num_key a \<noteq> 0)"

definition py_trunc :: "pynum \<Rightarrow> int" where
  "py_trunc a =
     (case a of
        PyInt x \<Rightarrow> x
      | PyFloat q \<Rightarrow> (if 0 \<le> q then \<lfloor>q\<rfloor> else \<lceil>q\<rceil>))"

subsection \<open>base.py: checked_cast and TextMatrix\<close>

text \<open>The classes that this layer casts to.\<close>

datatype pyclass = NumberObject_class | StringObject_class | NameObject_class

definition isinstance :: "pyval \<Rightarrow> pyclass \<Rightarrow> bool" where
  "isinstance val typ =
     (case (typ, val) of
        (NumberObject_class, NumberObject _) \<Rightarrow> True
      | (StringObject_class, StringObject _) \<Rightarrow> True
      | (NameObject_class, NameObject _) \<Rightarrow> True
      | _ \<Rightarrow> False)"

text \<open>\<open>checked_cast(typ, val)\<close>: \<open>check\<close> raises a plain \<open>Exception\<close> when \<open>val\<close> is not an
  instance of \<open>typ\<close>. Nothing is logged.\<close>

definition checked_cast :: "pyclass \<Rightarrow> pyval \<Rightarrow> error + pyval" where
  "checked_cast typ val = (if isinstance val typ then Inr val else Inl PyException)"

text \<open>The attribute \<open>bs\<close> of a \<open>StringObject\<close>, a \<open>NameObject\<close> or a \<open>WordToken\<close>.\<close>

definition bs_of :: "pyval \<Rightarrow> error + string" where
  "bs_of val =
     (case val of
        StringObject bs \<Rightarrow> Inr bs
      | NameObject bs \<Rightarrow> Inr bs
      | WordToken bs \<Rightarrow> Inr bs
      | _ \<Rightarrow> Inl AttributeError)"

text \<open>\<open>checked_cast(NumberObject, x).value\<close> and \<open>checked_cast(typ, x).bs\<close>.\<close>

definition cast_value :: "pyval \<Rightarrow> error + pynum" where
  "cast_value x = (case checked_cast NumberObject_class x of Inl e \<Rightarrow> Inl e | Inr v \<Rightarrow> value_of v)"

definition cast_bs :: "pyclass \<Rightarrow> pyval \<Rightarrow> error + string" where
  "cast_bs typ x = (case checked_cast typ x of Inl e \<Rightarrow> Inl e | Inr v \<Rightarrow> bs_of v)"

text \<open>\<open>[checked_cast(NumberObject, x).value for x in xs]\<close>, from left to right.\<close>

fun cast_values :: "pyval list \<Rightarrow> error + pynum list" where
  "cast_values [] = Inr []"
| "cast_values (x # xs) =
     (case cast_value x of
        Inl e \<Rightarrow> Inl e
      | Inr v \<Rightarrow> (case cast_values xs of Inl e \<Rightarrow> Inl e | Inr vs \<Rightarrow> Inr (v # vs)))"

record TextMatrix =
  tm_a :: pynum
  tm_b :: pynum
  tm_c :: pynum
  tm_d :: pynum
  tm_e :: pynum
  tm_f :: pynum

definition identity :: TextMatrix where
  "identity = \<lparr>tm_a = PyInt 1, tm_b = PyInt 0, tm_c = PyInt 0, tm_d = PyInt 1,
     tm_e = PyInt 0, tm_f = PyInt 0\<rparr>"

text \<open>\<open>TextMatrix.shift\<close>: \<open>self.e += w * self.a + h * self.c\<close> and
  \<open>self.f += w * self.b + h * self.d\<close>.\<close>

definition matrix_shift :: "pynum \<Rightarrow> pynum \<Rightarrow> TextMatrix \<Rightarrow> TextMatrix" where
  "matrix_shift w h m =
     m\<lparr>tm_e := py_add (tm_e m) (py_add (py_mul w (tm_a m)) (py_mul h (tm_c m))),
       tm_f := py_add (tm_f m) (py_add (py_mul w (tm_b m)) (py_mul h (tm_d m)))\<rparr>"

subsection \<open>Operations\<close>

text \<open>The classes of \<open>pdf_operation.py\<close> with their fields. An operator that does not cast
  its operands stores whatever the queue gave it, \<open>None\<close> included.\<close>

datatype (plugins only: code) operation =
    SaveCurGraphicsState
  | RestoreCurGraphicsState
  | ModifyCTM pynum pynum pynum pynum pynum pynum
  | SetLineWidth pynum
  | SetLineCap pynum
  | SetLineJoin pyval
  | SetMiterLimit pyval
  | SetLineDashPattern "pyval list" pyval
  | SetColourRenderingIntent pyval
  | SetFlatnessTolerance pyval
  | SetParameters pyval
  | BeginSubpath pyval pyval
  | AppendStraightLine pyval pyval
  | AppendCubicBezier1 pyval pyval pyval pyval pyval pyval
  | AppendCubicBezier2 pyval pyval pyval pyval
  | AppendCubicBezier3 pyval pyval pyval pyval
  | ClosePath
  | AppendRectangle pyval pyval pyval pyval
  | StrokePath
  | SetFont string pynum
  | SetTextMatrix TextMatrix
  | UpdateTextMatrix pynum
  | MoveStartNextLineWoParams
  | MoveStartNextLine pynum pynum
  | ShowTextString string
  | SetCharSpacing pynum
  | SetWordSpacing pynum
  | SetTextLeading pynum
  | SetTextRise pynum
  | SetHorizScaling pynum
  | BeginText
  | EndText


subsection \<open>TokenQueue\<close>

text \<open>The warnings of this layer, each with the arguments of its message:
  \<open>queue err: %s (empty)\<close>, \<open>queue err: %s (%s)\<close>, \<open>Expected open array, was: %s\<close>,
  \<open>Unexpected TD array token %s\<close>, the warning of the operator \<open>"\<close> on the root logger
  (with the queue), and \<open>Unk token name %s\<close> of the content parser.\<close>

datatype warning =
    QueueErr "pyval list"
  | QueueErrCount "pyval list" nat
  | ExpectedOpenArray pyval
  | UnexpectedArrayToken pyval
  | OperatorAndQueue "pyval list"
  | UnkTokenName string

text \<open>The state of the content parser: the list \<open>_arr\<close> of its \<open>TokenQueue\<close> and the
  warnings logged so far.\<close>

record TokenQueue =
  arr :: "pyval list"
  warnings :: "warning list"

definition new_TokenQueue :: TokenQueue where
  "new_TokenQueue = \<lparr>arr = [], warnings = []\<rparr>"

definition log_warning :: "warning \<Rightarrow> TokenQueue \<Rightarrow> TokenQueue" where
  "log_warning w queue = queue\<lparr>warnings := warnings queue @ [w]\<rparr>"

definition push :: "pyval \<Rightarrow> TokenQueue \<Rightarrow> TokenQueue" where
  "push element queue = queue\<lparr>arr := arr queue @ [element]\<rparr>"

definition clear :: "TokenQueue \<Rightarrow> TokenQueue" where
  "clear queue = queue\<lparr>arr := []\<rparr>"

definition ignore :: "TokenQueue \<Rightarrow> TokenQueue" where
  "ignore queue =
     (if arr queue \<noteq> [] then clear (log_warning (QueueErr (arr queue)) queue) else queue)"

text \<open>\<open>shift\<close> returns \<open>None\<close> from an empty queue, after a warning.\<close>

definition shift :: "TokenQueue \<Rightarrow> pyval \<times> TokenQueue" where
  "shift queue =
     (case arr queue of
        [] \<Rightarrow> (PyNone, log_warning (QueueErr []) queue)
      | token # rest \<Rightarrow> (token, queue\<lparr>arr := rest\<rparr>))"

text \<open>The loop \<open>while token and token is not CloseArrayToken\<close> of \<open>shift_arr\<close>. Of the
  values a queue can hold only \<open>None\<close> is false: the token and object classes define
  neither \<open>__bool__\<close> nor \<open>__len__\<close>.\<close>

function shift_arr_loop :: "pyval \<Rightarrow> pyval list \<Rightarrow> TokenQueue \<Rightarrow> pyval list \<times> TokenQueue" where
  "shift_arr_loop token ret queue =
     (if token \<noteq> PyNone \<and> token \<noteq> CloseArrayToken then
        shift_arr_loop (fst (shift queue)) (ret @ [token]) (snd (shift queue))
      else (ret, queue))"
  by pat_completeness auto
termination
  by (relation "measure (\<lambda>(token, ret, queue).
        2 * length (arr queue) + (if token \<noteq> PyNone \<and> token \<noteq> CloseArrayToken then 1 else 0))")
    (auto simp: shift_def log_warning_def split: list.splits)

declare shift_arr_loop.simps [simp del]

definition shift_arr :: "TokenQueue \<Rightarrow> pyval list \<times> TokenQueue" where
  "shift_arr queue =
     (case shift queue of
        (token, queue1) \<Rightarrow>
          (let queue2 = (if token \<noteq> OpenArrayToken
                         then log_warning (ExpectedOpenArray token) queue1 else queue1)
           in case shift queue2 of (token', queue3) \<Rightarrow> shift_arr_loop token' [] queue3))"

text \<open>\<open>shift_n\<close> pads a short queue with \<open>None\<close> and cuts a long one, after a warning.
  Its \<open>assert len(ret) == n\<close> always holds.\<close>

definition shift_n :: "nat \<Rightarrow> TokenQueue \<Rightarrow> pyval list \<times> TokenQueue" where
  "shift_n n queue =
     (if length (arr queue) = n then (arr queue, clear queue)
      else if length (arr queue) < n then
        (arr queue @ replicate (n - length (arr queue)) PyNone,
         clear (log_warning (QueueErrCount (arr queue) n) queue))
      else (take n (arr queue), clear (log_warning (QueueErrCount (arr queue) n) queue)))"

subsection \<open>Operators\<close>

text \<open>The method \<open>build\<close> of every operator class: the operations, or the exception
  raised, and the queue afterwards. \<open>Operator_build\<close> is the method of the base class,
  inherited by the classes whose body is \<open>pass\<close>.\<close>

type_synonym build = "TokenQueue \<Rightarrow> (error + operation list) \<times> TokenQueue"

definition Operator_build :: build where
  "Operator_build queue = (Inr [], clear queue)"

definition ignore_and :: "operation list \<Rightarrow> build" where
  "ignore_and ops queue = (Inr ops, ignore queue)"

text \<open>An operator with one operand taken as it is, with one number, with six numbers,
  with \<open>n\<close> operands taken as they are.\<close>

definition shift_one :: "(pyval \<Rightarrow> operation) \<Rightarrow> build" where
  "shift_one mk queue = (case shift queue of (x, queue1) \<Rightarrow> (Inr [mk x], queue1))"

definition shift_number :: "(pynum \<Rightarrow> operation) \<Rightarrow> build" where
  "shift_number mk queue =
     (case shift queue of
        (x, queue1) \<Rightarrow>
          (case cast_value x of Inl e \<Rightarrow> (Inl e, queue1) | Inr v \<Rightarrow> (Inr [mk v], queue1)))"

definition shift_numbers :: "nat \<Rightarrow> (pynum list \<Rightarrow> operation list) \<Rightarrow> build" where
  "shift_numbers n mk queue =
     (case shift_n n queue of
        (xs, queue1) \<Rightarrow>
          (case cast_values xs of Inl e \<Rightarrow> (Inl e, queue1) | Inr vs \<Rightarrow> (Inr (mk vs), queue1)))"

definition shift_operands :: "nat \<Rightarrow> (pyval list \<Rightarrow> operation) \<Rightarrow> build" where
  "shift_operands n mk queue = (case shift_n n queue of (xs, queue1) \<Rightarrow> (Inr [mk xs], queue1))"

definition SaveCurGraphicsStateOperator_build :: build where
  "SaveCurGraphicsStateOperator_build = ignore_and [SaveCurGraphicsState]"

definition RestoreCurGraphicsStateOperator_build :: build where
  "RestoreCurGraphicsStateOperator_build = ignore_and [RestoreCurGraphicsState]"

definition ModifyCTMOperator_build :: build where
  "ModifyCTMOperator_build =
     shift_numbers 6 (\<lambda>vs. [ModifyCTM (vs ! 0) (vs ! 1) (vs ! 2) (vs ! 3) (vs ! 4) (vs ! 5)])"

definition SetLineWidthOperator_build :: build where
  "SetLineWidthOperator_build = shift_number SetLineWidth"

definition SetLineCapOperator_build :: build where
  "SetLineCapOperator_build = shift_number SetLineCap"

definition SetLineJoinOperator_build :: build where
  "SetLineJoinOperator_build = shift_one SetLineJoin"

definition SetMiterLimitOperator_build :: build where
  "SetMiterLimitOperator_build = shift_one SetMiterLimit"

definition SetLineDashPatternOperator_build :: build where
  "SetLineDashPatternOperator_build queue =
     (case shift_arr queue of
        (dash_array, queue1) \<Rightarrow>
          (case shift queue1 of
             (dash_phase, queue2) \<Rightarrow> (Inr [SetLineDashPattern dash_array dash_phase], queue2)))"

definition SetColourRenderingIntentOperator_build :: build where
  "SetColourRenderingIntentOperator_build = shift_one SetColourRenderingIntent"

definition SetFlatnessToleranceOperator_build :: build where
  "SetFlatnessToleranceOperator_build = shift_one SetFlatnessTolerance"

definition SetParametersOperator_build :: build where
  "SetParametersOperator_build = shift_one SetParameters"

definition BeginSubpathOperator_build :: build where
  "BeginSubpathOperator_build = shift_operands 2 (\<lambda>xs. BeginSubpath (xs ! 0) (xs ! 1))"

definition AppendStraightLineOperator_build :: build where
  "AppendStraightLineOperator_build = shift_operands 2 (\<lambda>xs. AppendStraightLine (xs ! 0) (xs ! 1))"

definition AppendCubicBezier1Operator_build :: build where
  "AppendCubicBezier1Operator_build =
     shift_operands 6
       (\<lambda>xs. AppendCubicBezier1 (xs ! 0) (xs ! 1) (xs ! 2) (xs ! 3) (xs ! 4) (xs ! 5))"

definition AppendCubicBezier2Operator_build :: build where
  "AppendCubicBezier2Operator_build =
     shift_operands 4 (\<lambda>xs. AppendCubicBezier2 (xs ! 0) (xs ! 1) (xs ! 2) (xs ! 3))"

definition AppendCubicBezier3Operator_build :: build where
  "AppendCubicBezier3Operator_build =
     shift_operands 4 (\<lambda>xs. AppendCubicBezier3 (xs ! 0) (xs ! 1) (xs ! 2) (xs ! 3))"

definition ClosePathOperator_build :: build where
  "ClosePathOperator_build = ignore_and [ClosePath]"

definition AppendRectangleOperator_build :: build where
  "AppendRectangleOperator_build =
     shift_operands 4 (\<lambda>xs. AppendRectangle (xs ! 0) (xs ! 1) (xs ! 2) (xs ! 3))"

definition StrokePathOperator_build :: build where
  "StrokePathOperator_build = ignore_and [StrokePath]"

definition CloseAndStrokePathOperator_build :: build where
  "CloseAndStrokePathOperator_build = ignore_and [ClosePath, StrokePath]"

definition BeginTextOperator_build :: build where
  "BeginTextOperator_build = ignore_and [BeginText]"

definition EndTextOperator_build :: build where
  "EndTextOperator_build = ignore_and [EndText]"

definition MoveStartNextLineOperator_build :: build where
  "MoveStartNextLineOperator_build =
     shift_numbers 2 (\<lambda>vs. [MoveStartNextLine (vs ! 0) (vs ! 1)])"

definition MoveStartNextLineTextStateOperator_build :: build where
  "MoveStartNextLineTextStateOperator_build =
     shift_numbers 2 (\<lambda>vs. [SetTextLeading (py_neg (vs ! 1)), MoveStartNextLine (vs ! 0) (vs ! 1)])"

definition SetTextMatrixOperator_build :: build where
  "SetTextMatrixOperator_build =
     shift_numbers 6
       (\<lambda>vs. [SetTextMatrix \<lparr>tm_a = vs ! 0, tm_b = vs ! 1, tm_c = vs ! 2, tm_d = vs ! 3,
                 tm_e = vs ! 4, tm_f = vs ! 5\<rparr>])"

definition MoveStartNextLineWoParamsOperator_build :: build where
  "MoveStartNextLineWoParamsOperator_build = ignore_and [MoveStartNextLineWoParams]"

definition shift_string :: "(string \<Rightarrow> operation list) \<Rightarrow> build" where
  "shift_string mk queue =
     (case shift queue of
        (x, queue1) \<Rightarrow>
          (case cast_bs StringObject_class x of
             Inl e \<Rightarrow> (Inl e, queue1)
           | Inr bs \<Rightarrow> (Inr (mk bs), queue1)))"

definition ShowTextStringOperator_build :: build where
  "ShowTextStringOperator_build = shift_string (\<lambda>bs. [ShowTextString bs])"

definition MoveStartNextLineAndShowTextStringOperator_build :: build where
  "MoveStartNextLineAndShowTextStringOperator_build =
     shift_string (\<lambda>bs. [MoveStartNextLineWoParams, ShowTextString bs])"

definition MoveStartNextLineAndShowTextStringWWordSpacingOperator_build :: build where
  "MoveStartNextLineAndShowTextStringWWordSpacingOperator_build queue =
     (case shift queue of
        (x, queue1) \<Rightarrow>
          (case cast_value x of
             Inl e \<Rightarrow> (Inl e, queue1)
           | Inr aw \<Rightarrow>
               (case shift queue1 of
                  (y, queue2) \<Rightarrow>
                    (case cast_value y of
                       Inl e \<Rightarrow> (Inl e, queue2)
                     | Inr ac \<Rightarrow>
                         (case shift queue2 of
                            (z, queue3) \<Rightarrow>
                              (case cast_bs StringObject_class z of
                                 Inl e \<Rightarrow> (Inl e, queue3)
                               | Inr bs \<Rightarrow>
                                   (Inr [SetWordSpacing aw, SetCharSpacing ac,
                                         MoveStartNextLineWoParams, ShowTextString bs],
                                    log_warning (OperatorAndQueue (arr queue3)) queue3)))))))"

text \<open>The loop of \<open>ShowTextStringsOperator.build\<close> over the tokens of the array.\<close>

fun show_text_strings :: "pyval list \<Rightarrow> TokenQueue \<Rightarrow> (error + operation list) \<times> TokenQueue" where
  "show_text_strings [] queue = (Inr [], queue)"
| "show_text_strings (token # rest) queue =
     (case token of
        StringObject bs \<Rightarrow>
          (case show_text_strings rest queue of
             (Inl e, queue1) \<Rightarrow> (Inl e, queue1)
           | (Inr ops, queue1) \<Rightarrow> (Inr (ShowTextString bs # ops), queue1))
      | NumberObject bs \<Rightarrow>
          (case number_value bs of
             Inl e \<Rightarrow> (Inl e, queue)
           | Inr w \<Rightarrow>
               (case show_text_strings rest queue of
                  (Inl e, queue1) \<Rightarrow> (Inl e, queue1)
                | (Inr ops, queue1) \<Rightarrow> (Inr (UpdateTextMatrix w # ops), queue1)))
      | _ \<Rightarrow> show_text_strings rest (log_warning (UnexpectedArrayToken token) queue))"

definition ShowTextStringsOperator_build :: build where
  "ShowTextStringsOperator_build queue =
     (case shift_arr queue of (tokens, queue1) \<Rightarrow> show_text_strings tokens queue1)"

definition SetCharSpacingOperator_build :: build where
  "SetCharSpacingOperator_build = shift_number SetCharSpacing"

definition SetWordSpacingOperator_build :: build where
  "SetWordSpacingOperator_build = shift_number SetWordSpacing"

text \<open>\<open>pdf_operator.py\<close> imports the names listed in \<open>__all__\<close> of \<open>pdf_operation.py\<close> and
  five more by name; \<open>SetHorizScaling\<close> is in neither list, so building it is a
  \<open>NameError\<close>, after the operand was taken and cast.\<close>

definition SetHorizScalingOperator_build :: build where
  "SetHorizScalingOperator_build queue =
     (case shift queue of
        (x, queue1) \<Rightarrow>
          (case cast_value x of Inl e \<Rightarrow> (Inl e, queue1) | Inr scale \<Rightarrow> (Inl NameError, queue1)))"

definition SetTextLeadingOperator_build :: build where
  "SetTextLeadingOperator_build = shift_number SetTextLeading"

definition SetFontOperator_build :: build where
  "SetFontOperator_build queue =
     (case shift queue of
        (x, queue1) \<Rightarrow>
          (case cast_bs NameObject_class x of
             Inl e \<Rightarrow> (Inl e, queue1)
           | Inr font \<Rightarrow>
               (case shift queue1 of
                  (y, queue2) \<Rightarrow>
                    (case cast_value y of
                       Inl e \<Rightarrow> (Inl e, queue2)
                     | Inr size' \<Rightarrow> (Inr [SetFont font size'], queue2)))))"

definition SetTextRiseOperator_build :: build where
  "SetTextRiseOperator_build = shift_number SetTextRise"

text \<open>The table of operators, by mnemonic.\<close>

definition operator_by_token_bytes :: "(string \<times> build) list" where
  "operator_by_token_bytes =
     [(''q'', SaveCurGraphicsStateOperator_build),
      (''Q'', RestoreCurGraphicsStateOperator_build),
      (''cm'', ModifyCTMOperator_build),
      (''w'', SetLineWidthOperator_build),
      (''J'', SetLineCapOperator_build),
      (''j'', SetLineJoinOperator_build),
      (''M'', SetMiterLimitOperator_build),
      (''d'', SetLineDashPatternOperator_build),
      (''ri'', SetColourRenderingIntentOperator_build),
      (''i'', SetFlatnessToleranceOperator_build),
      (''gs'', SetParametersOperator_build),
      (''m'', BeginSubpathOperator_build),
      (''l'', AppendStraightLineOperator_build),
      (''c'', AppendCubicBezier1Operator_build),
      (''v'', AppendCubicBezier2Operator_build),
      (''y'', AppendCubicBezier3Operator_build),
      (''h'', ClosePathOperator_build),
      (''re'', AppendRectangleOperator_build),
      (''S'', StrokePathOperator_build),
      (''s'', CloseAndStrokePathOperator_build),
      (''f'', Operator_build),
      (''F'', Operator_build),
      (''f*'', Operator_build),
      (''B'', Operator_build),
      (''B*'', Operator_build),
      (''b'', Operator_build),
      (''b*'', Operator_build),
      (''n'', Operator_build),
      (''W'', Operator_build),
      (''W*'', Operator_build),
      (''BT'', BeginTextOperator_build),
      (''ET'', EndTextOperator_build),
      (''Td'', MoveStartNextLineOperator_build),
      (''TD'', MoveStartNextLineTextStateOperator_build),
      (''Tm'', SetTextMatrixOperator_build),
      (''T*'', MoveStartNextLineWoParamsOperator_build),
      (''Tj'', ShowTextStringOperator_build),
      ([CHR 0x27], MoveStartNextLineAndShowTextStringOperator_build),
      ([CHR 0x22], MoveStartNextLineAndShowTextStringWWordSpacingOperator_build),
      (''TJ'', ShowTextStringsOperator_build),
      (''d0'', Operator_build),
      (''d1'', Operator_build),
      (''CS'', Operator_build),
      (''cs'', Operator_build),
      (''SC'', Operator_build),
      (''SCN'', Operator_build),
      (''sc'', Operator_build),
      (''scn'', Operator_build),
      (''G'', Operator_build),
      (''g'', Operator_build),
      (''RG'', Operator_build),
      (''rg'', Operator_build),
      (''K'', Operator_build),
      (''k'', Operator_build),
      (''sh'', Operator_build),
      (''BI'', Operator_build),
      (''ID'', Operator_build),
      (''EI'', Operator_build),
      (''Do'', Operator_build),
      (''MP'', Operator_build),
      (''DP'', Operator_build),
      (''BMC'', Operator_build),
      (''BDC'', Operator_build),
      (''EMC'', Operator_build),
      (''BX'', Operator_build),
      (''EX'', Operator_build),
      (''Tc'', SetCharSpacingOperator_build),
      (''Tw'', SetWordSpacingOperator_build),
      (''Tz'', SetHorizScalingOperator_build),
      (''TL'', SetTextLeadingOperator_build),
      (''Tf'', SetFontOperator_build),
      (''Tr'', Operator_build),
      (''Ts'', SetTextRiseOperator_build)]"

section \<open>content_parser.py\<close>

text \<open>One round of the loop of \<open>parse_content\<close>. A word is looked up in the table and its
  operator builds the operations; a \<open>KeyError\<close> (from the table, or from \<open>build\<close>) is
  caught and logged, any other exception leaves the generator. Every other token is
  pushed on the queue.\<close>

definition parse_content_token ::
    "pyval \<Rightarrow> TokenQueue \<Rightarrow> (error + operation list) \<times> TokenQueue" where
  "parse_content_token token stack =
     (case token of
        WordToken token_bytes \<Rightarrow>
          (case map_of operator_by_token_bytes token_bytes of
             None \<Rightarrow> (Inr [], log_warning (UnkTokenName token_bytes) stack)
           | Some operator_build \<Rightarrow>
               (case operator_build stack of
                  (Inl e, stack1) \<Rightarrow>
                    (if e = KeyError then (Inr [], log_warning (UnkTokenName token_bytes) stack1)
                     else (Inl e, stack1))
                | (Inr ops, stack1) \<Rightarrow> (Inr ops, stack1)))
      | _ \<Rightarrow> (Inr [], push token stack))"

text \<open>The generator \<open>parse_content\<close> over the tokens that the tokenizer yields before it
  ends with the exception \<open>e\<close> (\<open>StopIteration\<close> at the end of the stream): the operations
  yielded, the exception that ends the generator, and the queue.\<close>

fun parse_content_loop ::
    "pyval list \<Rightarrow> error \<Rightarrow> TokenQueue \<Rightarrow> operation list \<times> error \<times> TokenQueue" where
  "parse_content_loop [] e stack = ([], e, stack)"
| "parse_content_loop (token # rest) e stack =
     (case parse_content_token token stack of
        (Inl e', stack1) \<Rightarrow> ([], e', stack1)
      | (Inr ops, stack1) \<Rightarrow>
          (case parse_content_loop rest e stack1 of
             (ops', e', stack2) \<Rightarrow> (ops @ ops', e', stack2)))"

definition parse_content :: "StreamWrapper \<Rightarrow> operation list \<times> error \<times> TokenQueue" where
  "parse_content stream_wrapper =
     (case tokenizer_iter (new_PDFTokenizer stream_wrapper) of
        (yielded, e, _) \<Rightarrow> parse_content_loop (map fst yielded) e new_TokenQueue)"


section \<open>parser.py: TextState\<close>

text \<open>The text state of the extractor. \<open>_tm\<close> and \<open>_tlm\<close> are always two different matrix
  objects (\<open>_update_text_matrix\<close> clones), so the in-place \<open>shift\<close> of one never shows in
  the other.\<close>

record TextState =
  text_leading :: pynum
  text_font_size :: pynum
  horizontal_scaling :: pynum
  text_rise :: pynum
  char_space :: pynum
  word_space :: pynum
  tm :: TextMatrix
  tlm :: TextMatrix
  last_y :: "pynum option"
  last_x :: "pynum option"

definition new_TextState :: TextState where
  "new_TextState =
     \<lparr>text_leading = PyInt 0, text_font_size = PyInt 0, horizontal_scaling = PyFloat 100,
      text_rise = PyInt 0, char_space = PyInt 0, word_space = PyInt 0,
      tm = identity, tlm = identity, last_y = None, last_x = None\<rparr>"

text \<open>The properties \<open>x\<close>, \<open>y\<close> and \<open>font_size\<close>: the components \<open>e\<close>, \<open>f\<close> and \<open>a\<close> of the
  text matrix.\<close>

definition state_x :: "TextState \<Rightarrow> pynum" where
  "state_x ts = tm_e (tm ts)"

definition state_y :: "TextState \<Rightarrow> pynum" where
  "state_y ts = tm_f (tm ts)"

definition font_size :: "TextState \<Rightarrow> pynum" where
  "font_size ts = tm_a (tm ts)"

definition shift_left_tm :: "pynum \<Rightarrow> TextState \<Rightarrow> TextState" where
  "shift_left_tm w ts = ts\<lparr>tm := matrix_shift w (PyInt 0) (tm ts)\<rparr>"

definition update_text_matrix :: "TextState \<Rightarrow> TextState" where
  "update_text_matrix ts = ts\<lparr>tm := tlm ts\<rparr>"

definition set_text_matrix :: "TextMatrix \<Rightarrow> TextState \<Rightarrow> TextState" where
  "set_text_matrix m ts = update_text_matrix (ts\<lparr>tlm := m\<rparr>)"

definition move_new_line :: "pynum \<Rightarrow> pynum \<Rightarrow> TextState \<Rightarrow> TextState" where
  "move_new_line tx ty ts = update_text_matrix (ts\<lparr>tlm := matrix_shift tx ty (tlm ts)\<rparr>)"

definition store_xy :: "TextState \<Rightarrow> TextState" where
  "store_xy ts = ts\<lparr>last_x := Some (tm_e (tm ts)), last_y := Some (tm_f (tm ts))\<rparr>"

section \<open>font_parser.py: Font\<close>

definition get_pos_width :: "Font \<Rightarrow> int \<Rightarrow> pynum" where
  "get_pos_width font i = (case map_of (widths font) i of Some w \<Rightarrow> w | None \<Rightarrow> missing_width font)"

text \<open>\<open>get_space_width\<close> is \<open>get_char_width(" ")\<close>, the width at \<open>ord(" ")\<close>.\<close>

definition get_space_width :: "Font \<Rightarrow> pynum" where
  "get_space_width font = get_pos_width font 32"

text \<open>\<open>PDFDocument.get_font\<close>: the font of the page resources, or a font with the
  standard encoding, no widths and the missing width \<open>0.0\<close>. The table \<open>STD_ENCODING\<close> of
  \<open>pdf_encodings\<close> is a parameter of the model.\<close>

definition default_Font :: "(int \<times> unicode) list \<Rightarrow> Font" where
  "default_Font STD_ENCODING = \<lparr>encoding = STD_ENCODING, widths = [], missing_width = PyFloat 0\<rparr>"

definition get_font :: "(int \<times> unicode) list \<Rightarrow> PDFDocument \<Rightarrow> string \<Rightarrow> Font" where
  "get_font STD_ENCODING doc name =
     (case map_of (font_by_ref doc) name of
        Some font \<Rightarrow> font
      | None \<Rightarrow> default_Font STD_ENCODING)"

section \<open>tool.py: TextExtractor\<close>

text \<open>The text elements. The fields of \<open>Text\<close> are \<open>s\<close>, \<open>x\<close>, \<open>y\<close>, \<open>width\<close>, \<open>height\<close>,
  \<open>font_size\<close> and \<open>font_space_width\<close>.\<close>

datatype TextElement =
    Text unicode pynum pynum pynum pynum pynum pynum
  | NewText
  | NewPage

text \<open>\<open>TextExtractorParameters.is_other_line\<close> (the default parameters).\<close>

definition is_other_line :: "pynum \<Rightarrow> pynum \<Rightarrow> bool" where
  "is_other_line delta_y font_size' = py_less font_size' (py_abs delta_y)"

text \<open>\<open>"".join(encoding.get(y, U+FFFD) for y in bs if y)\<close>: zero bytes are skipped, a code
  without entry gives U+FFFD.\<close>

definition decode_text :: "(int \<times> unicode) list \<Rightarrow> string \<Rightarrow> unicode" where
  "decode_text encoding' bs =
     concat (map (\<lambda>y. case map_of encoding' y of Some u \<Rightarrow> u | None \<Rightarrow> [0xFFFD])
       (filter (\<lambda>y. y \<noteq> 0) (map of_char bs)))"

text \<open>\<open>(" " * factor).join(list(text))\<close>; a factor below one gives the empty separator.\<close>

fun join :: "unicode \<Rightarrow> unicode \<Rightarrow> unicode" where
  "join sep [] = []"
| "join sep [c] = [c]"
| "join sep (c # rest) = c # sep @ join sep rest"

definition spread :: "int \<Rightarrow> unicode \<Rightarrow> unicode" where
  "spread factor text = join (replicate (nat factor) 32) text"

text \<open>\<open>TextExtractor._get_width\<close>; \<open>sum\<close> starts from the integer 0.\<close>

definition get_width :: "TextState \<Rightarrow> Font \<Rightarrow> string \<Rightarrow> error + pynum" where
  "get_width ts font bs =
     (let space_count = int (length (filter (\<lambda>c. of_char c = (32 :: int)) bs));
          total = foldl py_add (PyInt 0) (map (\<lambda>c. get_pos_width font (of_char c)) bs)
      in case py_truediv (horizontal_scaling ts) (PyFloat 100) of
           Inl e \<Rightarrow> Inl e
         | Inr scaling \<Rightarrow>
             Inr (py_mul
               (py_add
                  (py_add total
                     (py_mul (py_mul (char_space ts) (PyInt (int (length bs) - 1))) (PyInt 1000)))
                  (py_mul (py_mul (word_space ts) (PyInt space_count)) (PyInt 1000)))
               scaling))"

text \<open>The state of the loop of \<open>_execute_page\<close>: the text state of the extractor and the
  local variables \<open>font\<close> and \<open>encoding\<close>.\<close>

record page_state =
  text_state :: TextState
  font :: Font
  encoding' :: "(int \<times> unicode) list"

text \<open>The body of the \<open>try\<close> statement for a \<open>ShowTextString\<close>: the elements yielded before
  the statement ends, the exception that ends it if there is one, and the state.\<close>

definition show_text ::
    "string \<Rightarrow> page_state \<Rightarrow> TextElement list \<times> error option \<times> page_state" where
  "show_text bs st =
     (let ts = text_state st;
          text = decode_text (encoding' st) bs;
          x = state_x ts;
          y = state_y ts;
          fs = font_size ts
      in case get_width ts (font st) bs of
           Inl e \<Rightarrow> ([], Some e, st)
         | Inr w \<Rightarrow>
             (let font_space_width = get_space_width (font st);
                  cs = py_mul (PyInt 1000) (char_space ts)
              in case (if py_less (PyInt 0) font_space_width \<and> py_less font_space_width cs
                       then (case py_truediv cs font_space_width of
                               Inl e \<Rightarrow> Inl e
                             | Inr q \<Rightarrow> Inr (spread (py_trunc q) text))
                       else Inr text) of
                   Inl e \<Rightarrow> ([], Some e, st)
                 | Inr text1 \<Rightarrow>
                     (let delta_y = (case last_y ts of None \<Rightarrow> PyInt 0 | Some ly \<Rightarrow> py_sub y ly)
                      in case (if is_other_line delta_y fs then Inr [NewText]
                               else (let delta_x =
                                           (case last_x ts of None \<Rightarrow> PyInt 0 | Some lx \<Rightarrow> py_sub x lx)
                                     in if py_truthy fs then
                                          (case py_truediv (py_mul delta_x (PyInt 1000)) fs of
                                             Inl e \<Rightarrow> Inl e
                                           | Inr temp \<Rightarrow>
                                               (if py_less (PyInt 0) font_space_width \<and>
                                                   py_less font_space_width temp
                                                then (case py_truediv temp font_space_width of
                                                        Inl e \<Rightarrow> Inl e
                                                      | Inr _ \<Rightarrow> Inr [NewText])
                                                else Inr []))
                                        else Inr [])) of
                           Inl e \<Rightarrow> ([], Some e, st)
                         | Inr separators \<Rightarrow>
                             (case py_truediv w (PyInt 1000) of
                                Inl e \<Rightarrow> (separators, Some e, st)
                              | Inr shift_w \<Rightarrow>
                                  (let ts1 = shift_left_tm shift_w ts;
                                       width = py_sub (state_x ts1) x;
                                       t = Text text1 x y width (PyFloat 0) fs font_space_width
                                   in (separators @ [t], None,
                                       st\<lparr>text_state := store_xy ts1\<rparr>))))))"

text \<open>One round of the loop of \<open>_execute_page\<close>. The exceptions \<open>IndexError\<close> and \<open>KeyError\<close>
  of a \<open>ShowTextString\<close> are caught and logged.\<close>

definition execute_operation ::
    "(int \<times> unicode) list \<Rightarrow> PDFDocument \<Rightarrow> operation \<Rightarrow> page_state \<Rightarrow>
     TextElement list \<times> error option \<times> page_state" where
  "execute_operation STD_ENCODING doc x st =
     (let ts = text_state st in
      case x of
        SetFont name size' \<Rightarrow>
          (let font' = get_font STD_ENCODING doc name
           in ([], None, st\<lparr>font := font', encoding' := encoding font',
                 text_state := ts\<lparr>text_font_size := size'\<rparr>\<rparr>))
      | SetTextRise rise \<Rightarrow> ([], None, st\<lparr>text_state := ts\<lparr>text_rise := rise\<rparr>\<rparr>)
      | SetHorizScaling scale \<Rightarrow> ([], None, st\<lparr>text_state := ts\<lparr>horizontal_scaling := scale\<rparr>\<rparr>)
      | SetCharSpacing c \<Rightarrow> ([], None, st\<lparr>text_state := ts\<lparr>char_space := c\<rparr>\<rparr>)
      | SetWordSpacing w \<Rightarrow> ([], None, st\<lparr>text_state := ts\<lparr>word_space := w\<rparr>\<rparr>)
      | ShowTextString bs \<Rightarrow>
          (case show_text bs st of
             (elements, Some e, st1) \<Rightarrow>
               (if e = IndexError \<or> e = KeyError then (elements, None, st1)
                else (elements, Some e, st1))
           | (elements, None, st1) \<Rightarrow> (elements, None, st1))
      | MoveStartNextLine tx ty \<Rightarrow> ([], None, st\<lparr>text_state := move_new_line tx ty ts\<rparr>)
      | SetTextMatrix m \<Rightarrow> ([], None, st\<lparr>text_state := set_text_matrix m ts\<rparr>)
      | UpdateTextMatrix w \<Rightarrow>
          (case py_truediv (py_neg w) (PyInt 1000) of
             Inl e \<Rightarrow> ([], Some e, st)
           | Inr shift_w \<Rightarrow> ([], None, st\<lparr>text_state := shift_left_tm shift_w ts\<rparr>))
      | MoveStartNextLineWoParams \<Rightarrow>
          ([], None, st\<lparr>text_state := move_new_line (PyInt 0) (py_neg (text_leading ts)) ts\<rparr>)
      | SetTextLeading leading \<Rightarrow> ([], None, st\<lparr>text_state := ts\<lparr>text_leading := leading\<rparr>\<rparr>)
      | _ \<Rightarrow> ([], None, st))"

fun execute_operations ::
    "(int \<times> unicode) list \<Rightarrow> PDFDocument \<Rightarrow> operation list \<Rightarrow> page_state \<Rightarrow>
     TextElement list \<times> error option \<times> page_state" where
  "execute_operations STD_ENCODING doc [] st = ([], None, st)"
| "execute_operations STD_ENCODING doc (x # rest) st =
     (case execute_operation STD_ENCODING doc x st of
        (elements, Some e, st1) \<Rightarrow> (elements, Some e, st1)
      | (elements, None, st1) \<Rightarrow>
          (case execute_operations STD_ENCODING doc rest st1 of
             (elements', r, st2) \<Rightarrow> (elements @ elements', r, st2)))"

text \<open>\<open>TextExtractor._execute_page\<close> from the point where it has the stream of the page
  contents: \<open>NewPage\<close> was yielded, the fonts of the page are in the document, and
  \<open>stream_wrapper\<close> delivers the bytes of the content stream after decompression
  (\<open>zlib\<close> and the font parser are not part of the model). The result is the list of
  the elements yielded, the exception that ends the generator if there is one, and the
  text state of the extractor.\<close>

definition execute_page ::
    "(int \<times> unicode) list \<Rightarrow> PDFDocument \<Rightarrow> TextState \<Rightarrow> StreamWrapper \<Rightarrow>
     TextElement list \<times> error option \<times> TextState" where
  "execute_page STD_ENCODING doc ts stream_wrapper =
     (case parse_content stream_wrapper of
        (ops, e, _) \<Rightarrow>
          (case execute_operations STD_ENCODING doc ops
                  \<lparr>text_state = ts, font = default_Font STD_ENCODING, encoding' = STD_ENCODING\<rparr> of
             (elements, Some e', st) \<Rightarrow> (NewPage # elements, Some e', text_state st)
           | (elements, None, st) \<Rightarrow>
               (NewPage # elements, if e = StopIteration then None else Some e, text_state st)))"


section \<open>Notions used in the statements\<close>

text \<open>\<open>list(PDFTokenizer.create(io.BytesIO(bs)))\<close>: the tokens, and the exception that ends
  the iteration (\<open>StopIteration\<close> for a normal end).\<close>

definition tokens_of :: "string \<Rightarrow> pyval list \<times> error" where
  "tokens_of bs =
     (case tokenizer_iter (create \<lparr>buf = bs, pos = 0\<rparr>) of
        (yielded, e, _) \<Rightarrow> (map fst yielded, e))"

text \<open>The cache holds only object numbers of the cross-reference table. This is true of
  a new document and is kept by every call of the methods that fill the cache.\<close>

definition cache_in_xref :: "PDFDocument \<Rightarrow> bool" where
  "cache_in_xref doc = (fst ` set (obj_by_num doc) \<subseteq> (of_int \<circ> fst) ` set (xref_table doc))"

text \<open>A call leaves the cross-reference table alone and keeps the cache within it.\<close>

definition same_cache :: "PDFDocument \<Rightarrow> PDFDocument \<Rightarrow> bool" where
  "same_cache doc doc' =
     (xref_table doc' = xref_table doc \<and> (cache_in_xref doc \<longrightarrow> cache_in_xref doc'))"

definition keeps_cache :: "('a \<Rightarrow> PDFDocument \<Rightarrow> 'b result) \<Rightarrow> bool" where
  "keeps_cache f = (\<forall>x doc. same_cache doc (snd (f x doc)))"

text \<open>Position and stack of saved positions after a normal return.\<close>

definition returns_in_place :: "('a \<Rightarrow> PDFDocument \<Rightarrow> 'b result) \<Rightarrow> bool" where
  "returns_in_place f =
     (\<forall>x doc r doc'. f x doc = (Inr r, doc') \<longrightarrow>
        tell (parser doc') = tell (parser doc) \<and> offsets doc' = offsets doc)"

text \<open>The cross-reference sections reached through the \<open>/Prev\<close> chain that starts at a
  trailer dictionary, in the order in which they are reached (newest first), and the byte
  source after the last one: each section is read by \<open>get_xref_table\<close> at the offset its
  predecessor's trailer names, followed by its own trailer dictionary.\<close>

inductive prev_chain :: "pyval \<Rightarrow> bytes_io \<Rightarrow> xref list \<Rightarrow> bytes_io \<Rightarrow> bool" where
  chain_end:
    "getitem trailer_dict ''/Prev'' = Inl KeyError \<Longrightarrow> prev_chain trailer_dict s [] s"
| chain_step:
    "getitem trailer_dict ''/Prev'' = Inr prev \<Longrightarrow>
     value_of prev = Inr other_start_xref \<Longrightarrow>
     get_xref_table other_start_xref s = (Inr other_xref_table, s1) \<Longrightarrow>
     read_dict s1 = (Inr trailer_dict', s2) \<Longrightarrow>
     prev_chain trailer_dict' s2 older s3 \<Longrightarrow>
     prev_chain trailer_dict s (other_xref_table # older) s3"

text \<open>The entry for an object number in the newest section that mentions it.\<close>

fun newest_entry :: "xref list \<Rightarrow> int \<Rightarrow> XrefEntry option" where
  "newest_entry [] n = None"
| "newest_entry (section # older) n =
     (case map_of section n of Some entry \<Rightarrow> Some entry | None \<Rightarrow> newest_entry older n)"


section \<open>Example files\<close>

text \<open>A file given by its lines, each ended by a line feed.\<close>

definition unlines :: "string list \<Rightarrow> string" where
  "unlines ls = concat (map (\<lambda>l. l @ [CHR 0x0A]) ls)"

text \<open>A stream object (number 1, at offset 9) whose \<open>/Length\<close> is the indirect object 2
  (at offset 67); the payload \<open>ABCDE\<close> starts at offset 44. The document over this file
  has both objects in its cross-reference table, an empty cache, and its byte source
  at position 3.\<close>

definition stream_file :: string where
  "stream_file = unlines
     [''%PDF-1.4'', ''1 0 obj'', ''<< /Length 2 0 R >>'', ''stream'', ''ABCDE'', ''endstream'',
      ''endobj'', ''2 0 obj'', ''5'', ''endobj'']"

definition stream_doc :: PDFDocument where
  "stream_doc = new_PDFDocument \<lparr>buf = stream_file, pos = 3\<rparr> None (PyInt 3)
     (IndirectRef (NumberObject ''1'') (NumberObject ''0'')) None
     [(1, \<lparr>byte_offset = ''0000000009'', gen_number = ''00000'', kw = ''n''\<rparr>),
      (2, \<lparr>byte_offset = ''0000000067'', gen_number = ''00000'', kw = ''n''\<rparr>)]"

text \<open>The same document once object 2 is in the cache.\<close>

definition stream_doc_cached :: PDFDocument where
  "stream_doc_cached = stream_doc\<lparr>obj_by_num := [(2, IndirectObject 2 0 (NumberObject ''5''))]\<rparr>"

text \<open>Two cross-reference sections: the older one at offset 9 with the objects 5 and 6,
  the newest one at offset 92 with a new entry for the object 5 and a \<open>/Prev\<close> entry
  that names the older one.\<close>

definition two_revisions :: string where
  "two_revisions = unlines
     [''%PDF-1.4'',
      ''xref'', ''5 2'', ''0000000050 00000 n '', ''0000000060 00000 n '', ''trailer'',
      ''<< /Size 7 /Root 1 0 R >>'',
      ''xref'', ''5 1'', ''0000000100 00000 n '', ''trailer'',
      ''<< /Size 7 /Root 1 0 R /Prev 9 >>'']"


section \<open>Properties of the RC4 cipher\<close>

text \<open>The permutation always has 256 entries, each a byte value, so no index of the
  source is out of range and every output value can be packed.\<close>

definition perm_ok :: "nat list \<Rightarrow> bool" where
  "perm_ok p = (length p = 256 \<and> list_all (\<lambda>x. x < 256) p)"

lemma perm_ok_nth: "perm_ok p \<Longrightarrow> i < 256 \<Longrightarrow> p ! i < 256"
  by (simp add: perm_ok_def list_all_length)

lemma perm_ok_swap: "perm_ok p \<Longrightarrow> i < 256 \<Longrightarrow> j < 256 \<Longrightarrow> perm_ok (swap p i j)"
  by (auto simp: perm_ok_def swap_def list_all_length nth_list_update)

lemma perm_ok_range: "perm_ok [0..<256]"
  by (simp add: perm_ok_def list_all_length)

lemma perm_ok_ksa_fold:
  "perm_ok p \<Longrightarrow> list_all (\<lambda>i. i < 256) is \<Longrightarrow> perm_ok (fst (fold (ksa_step k) is (p, j)))"
proof (induction "is" arbitrary: p j)
  case Nil
  then show ?case by simp
next
  case (Cons i "is")
  let ?j = "(j + p ! i + k ! (i mod length k)) mod 256"
  from Cons.prems have "perm_ok (swap p i ?j)"
    by (intro perm_ok_swap) simp_all
  with Cons.prems Cons.IH [of "swap p i ?j" ?j] show ?case
    by (simp add: ksa_step_def Let_def)
qed

lemma init_ARC4_ok: "key \<noteq> [] \<Longrightarrow> \<exists>p. init_ARC4 key = Inr p \<and> perm_ok p"
  using perm_ok_ksa_fold [OF perm_ok_range, of "[0..<256]" "map of_char key" 0]
  by (simp add: init_ARC4_def list_all_length)

lemma xor_byte_less: "a < 256 \<Longrightarrow> b < 256 \<Longrightarrow> a XOR b < (256::nat)"
proof -
  assume "a < 256" "b < 256"
  then have a: "take_bit 8 a = a" and b: "take_bit 8 b = b"
    by (simp_all add: take_bit_nat_eq_self)
  have "take_bit 8 (a XOR b) < 2 ^ 8"
    by (rule take_bit_nat_less_exp)
  then show ?thesis
    by (simp add: a b)
qed

lemma xor_twice: "(a XOR c) XOR c = (a::nat)"
  by (simp add: xor.assoc)

lemma arc4_loop_bytes:
  "perm_ok p \<Longrightarrow> list_all (\<lambda>b. b < 256) bs \<Longrightarrow>
     list_all (\<lambda>b. b < 256) (fst (arc4_loop p i j bs))"
proof (induction bs arbitrary: p i j)
  case Nil
  then show ?case by simp
next
  case (Cons b bs)
  let ?i = "(i + 1) mod 256"
  let ?j = "(j + p ! ?i) mod 256"
  let ?p = "swap p ?i ?j"
  have ok: "perm_ok ?p"
    using Cons.prems by (intro perm_ok_swap) simp_all
  then have "?p ! ((?p ! ?i + ?p ! ?j) mod 256) < 256"
    by (intro perm_ok_nth) simp_all
  with Cons.prems have "b XOR ?p ! ((?p ! ?i + ?p ! ?j) mod 256) < 256"
    by (intro xor_byte_less) simp_all
  moreover from Cons.prems Cons.IH [OF ok, of ?i ?j]
  have "list_all (\<lambda>b. b < 256) (fst (arc4_loop ?p ?i ?j bs))"
    by simp
  ultimately show ?case
    by (simp add: Let_def split_beta)
qed

lemma arc4_loop_length: "length (fst (arc4_loop p i j bs)) = length bs"
  by (induction bs arbitrary: p i j) (simp_all add: Let_def split_beta)

lemma arc4_loop_twice:
  "fst (arc4_loop p i j (fst (arc4_loop p i j bs))) = bs"
  by (induction bs arbitrary: p i j) (simp_all add: Let_def split_beta xor_twice)

lemma map_of_char_char_of:
  "list_all (\<lambda>c. c < 256) cs \<Longrightarrow> map of_char (map char_of (map int cs)) = (cs :: nat list)"
  by (induction cs) simp_all

lemma list_all_of_char: "list_all (\<lambda>c. c < 256) (map of_char (d :: string) :: nat list)"
  by (induction d) simp_all

lemma bytes_to_string_nat:
  "list_all (\<lambda>c. c < 256) cs \<Longrightarrow> bytes_to_string (map int cs) = Inr (map char_of cs)"
  by (simp add: bytes_to_string_def list_all_length comp_def)

text \<open>C7: for every non-empty key \<open>k\<close> and every byte sequence \<open>d\<close>, \<open>ARC4\<close> returns a
  byte string, and applying \<open>ARC4\<close> with the same key to that result gives \<open>d\<close> back.\<close>

theorem ARC4_involution:
  "k \<noteq> [] \<Longrightarrow> \<exists>c. ARC4 k d = Inr c \<and> ARC4 k c = Inr d"
proof -
  assume "k \<noteq> []"
  then obtain p where p: "init_ARC4 k = Inr p" "perm_ok p"
    using init_ARC4_ok by blast
  let ?out = "fst (arc4_loop p 0 0 (map of_char d))"
  have out: "list_all (\<lambda>c. c < 256) ?out"
    using p(2) list_all_of_char by (rule arc4_loop_bytes)
  then have rt: "map of_char (map char_of ?out) = ?out"
    using map_of_char_char_of [of ?out] by (simp add: comp_def)
  have "ARC4 k d = Inr (map char_of ?out)"
    using p(1) bytes_to_string_nat [OF out] by (simp only: ARC4_def sum.case)
  moreover have "ARC4 k (map char_of ?out) = Inr d"
  proof -
    have "ARC4 k (map char_of ?out) =
        bytes_to_string (map int (fst (arc4_loop p 0 0 (map of_char (map char_of ?out)))))"
      using p(1) by (simp only: ARC4_def sum.case)
    also have "\<dots> = bytes_to_string (map int (fst (arc4_loop p 0 0 ?out)))"
      by (simp only: rt)
    also have "\<dots> = bytes_to_string (map int (map of_char d))"
      by (simp only: arc4_loop_twice)
    also have "\<dots> = Inr (map char_of (map of_char d :: nat list))"
      using list_all_of_char by (rule bytes_to_string_nat)
    also have "\<dots> = Inr d"
      by (simp add: comp_def)
    finally show ?thesis .
  qed
  ultimately show ?thesis
    by blast
qed

theorem ARC4_involution_witness:
  "''Key'' \<noteq> [] \<and> (\<exists>c. ARC4 ''Key'' ''Plaintext'' = Inr c \<and> ARC4 ''Key'' c = Inr ''Plaintext'')"
  using ARC4_involution [of "''Key''" "''Plaintext''"] by simp


section \<open>Properties of the stream windows\<close>

lemma read_windows_concat:
  "concat (fst (read_windows n s)) = take (n * 40) (drop (pos s) (buf s))"
proof (induction n arbitrary: s)
  case 0
  then show ?case by simp
next
  case (Suc n)
  show ?case
  proof (cases "pos s + 40 \<le> length (buf s)")
    case True
    then have "concat (fst (read_windows (Suc n) s)) =
        take 40 (drop (pos s) (buf s)) @ take (n * 40) (drop (pos s + 40) (buf s))"
      by (simp add: BUF_SIZE_def read_def Let_def split_beta Suc.IH min_def)
    also have "\<dots> = take (40 + n * 40) (drop (pos s) (buf s))"
      by (simp add: take_add add.commute)
    finally show ?thesis by simp
  next
    case False
    then have "concat (fst (read_windows (Suc n) s)) =
        take 40 (drop (pos s) (buf s)) @
        take (n * 40) (drop (pos s + (length (buf s) - pos s)) (buf s))"
      by (simp add: BUF_SIZE_def read_def Let_def split_beta Suc.IH min_def)
    with False show ?thesis by simp
  qed
qed

lemma read_windows_state:
  "buf (snd (read_windows n s)) = buf s \<and>
   pos (snd (read_windows n s)) = pos s + length (concat (fst (read_windows n s)))"
  by (induction n arbitrary: s) (simp_all add: read_def Let_def split_beta)

lemma take_take_drop: "take a xs @ take b (drop (length (take a xs)) xs) = take (a + b) xs"
  by (cases "a \<le> length xs") (simp_all add: take_add min_def)

lemma windows_total_int:
  "0 \<le> len \<Longrightarrow>
   int (range_len (len - 40) 40) * 40 + len mod 40 =
     (if len mod 40 = 0 \<and> 0 < len then len - 40 else len)"
proof (cases "len \<le> 40")
  case True
  assume "0 \<le> len"
  with True show ?thesis
    unfolding range_len_def by (cases "len = 40") auto
next
  case False
  define q r where "q = len div 40" and "r = len mod 40"
  have len: "len = 40 * q + r" and r: "0 \<le> r" "r < 40"
    by (simp_all add: q_def r_def)
  have d: "(len - 41) div 40 = (if r = 0 then q - 2 else q - 1)"
  proof (cases "r = 0")
    case True
    have "(len - 41) div 40 = q - 2"
      by (rule int_div_pos_eq [where r = 39]) (simp_all add: len True)
    with True show ?thesis by simp
  next
    case nz: False
    have "(len - 41) div 40 = q - 1"
      by (rule int_div_pos_eq [where r = "r - 1"]) (use r nz in \<open>simp_all add: len\<close>)
    with nz show ?thesis by simp
  qed
  from False len r have "2 \<le> q \<or> (q = 1 \<and> r \<noteq> 0)" by linarith
  with d have "int (range_len (len - 40) 40) = (if r = 0 then q - 1 else q)"
    using False by (auto simp: range_len_def)
  then show ?thesis
    using False r unfolding r_def [symmetric] by (auto simp: len)
qed

lemma windows_total:
  "0 \<le> len \<Longrightarrow>
   range_len (len - 40) 40 * 40 + nat (len mod 40) =
     nat (if len mod 40 = 0 \<and> 0 < len then len - 40 else len)"
proof -
  assume len: "0 \<le> len"
  have "int (range_len (len - 40) 40 * 40 + nat (len mod 40)) =
      int (range_len (len - 40) 40) * 40 + len mod 40"
    by simp
  also note windows_total_int [OF len]
  finally show ?thesis by linarith
qed

text \<open>What the windows add up to, for every byte source and every length \<open>len \<ge> 0\<close>: when
  \<open>len\<close> is a positive multiple of \<open>BUF_SIZE\<close> the loop stops one window early and the final
  read asks for \<open>len % BUF_SIZE = 0\<close> bytes, so the last 40 bytes are never read.\<close>

lemma stream_window_concat:
  "0 \<le> len \<Longrightarrow>
   concat (fst (stream_window (StreamObject n g d start (PyInt len)) None s)) =
     take (nat (if len mod 40 = 0 \<and> 0 < len then len - 40 else len)) (drop start (buf s))"
proof -
  assume len: "0 \<le> len"
  let ?s0 = "s\<lparr>pos := start\<rparr>"
  let ?k = "range_len (len - 40) 40"
  let ?w = "read_windows ?k ?s0"
  have "concat (fst (stream_window (StreamObject n g d start (PyInt len)) None s)) =
      concat (fst ?w) @ take (nat (len mod 40)) (drop (pos (snd ?w)) (buf (snd ?w)))"
    by (simp add: stream_window_def stream_window_inner_def BUF_SIZE_def Let_def split_beta read_def)
  also have "\<dots> = take (?k * 40) (drop start (buf s)) @
      take (nat (len mod 40)) (drop (length (take (?k * 40) (drop start (buf s)))) (drop start (buf s)))"
    by (simp add: read_windows_state read_windows_concat add.commute)
  also have "\<dots> = take (?k * 40 + nat (len mod 40)) (drop start (buf s))"
    by (rule take_take_drop)
  finally show ?thesis
    using windows_total [OF len] by simp
qed

text \<open>C3 (the claim fails on the code): a stream object of length 40 at offset 0 of a
  40-byte source, no encrypter. The claim asks for chunks whose concatenation is the 40
  bytes of the source; \<open>stream_window\<close> yields one chunk, the empty byte string.\<close>

theorem stream_window_drops_last_window:
  "stream_window (StreamObject 7 0 (DictObject [(''/Length'', NumberObject ''40'')]) 0 (PyInt 40))
      None \<lparr>buf = replicate 40 (CHR ''x''), pos = 0\<rparr> =
     ([''''], None, \<lparr>buf = replicate 40 (CHR ''x''), pos = 0\<rparr>)"
  by (simp add: stream_window_def stream_window_inner_def BUF_SIZE_def range_len_def read_def)


section \<open>Properties of the tokenizer\<close>

text \<open>The equations that evaluate the tokenizer on a given byte string.\<close>

lemmas tokenizer_eval =
  tokenizer_iter.simps tokenizer_step_def wrapper_next_def read_one handle_def
  StartState_handle_def NameObjectState_handle_def OpenDictOrHexStringState_handle_def
  CloseDictState_handle_def StringState_handle_def CommentState_handle_def
  DigitState_handle_def WordState_handle_def HexStringState_handle_def
  set_state_def tk_unget_def unget_def emit_def handle_esc_def handle_char_def
  handle_ddd_def ddd_truthy_def new_NameObjectState_def new_StringState_def
  new_CommentState_def new_DigitState_def create_def new_PDFTokenizer_def
  BinaryStreamWrapper_def in_bytes_def DELIMITERS_def WHITESPACES_def NUMBER_START_def
  DECIMAL_DIGITS_def HEX_DIGITS_def START_SKIPPED_def bytes_to_string_def hex_value_def
  char_of_def

text \<open>C8: the seven bytes \<open>(\0053)\<close> tokenize to exactly one string token holding the two
  bytes \<open>0x05 0x33\<close>; \<open>(\053)\<close> and \<open>(\53)\<close> each tokenize to exactly one string token
  holding the single byte \<open>0x2B\<close>. (\<open>CHR 0x5C\<close> is the backslash.)\<close>

theorem octal_escape_examples:
  "tokens_of (''('' @ CHR 0x5C # ''0053)'') = ([StringObject [CHR 0x05, CHR 0x33]], StopIteration) \<and>
   tokens_of (''('' @ CHR 0x5C # ''053)'') = ([StringObject [CHR 0x2B]], StopIteration) \<and>
   tokens_of (''('' @ CHR 0x5C # ''53)'') = ([StringObject [CHR 0x2B]], StopIteration)"
  by (simp add: tokens_of_def tokenizer_eval)


section \<open>Properties of the object parser\<close>

lemmas parse_eval = parse_def read_object_def parse_token_def attach_def indirect_ref_step_def

text \<open>The word \<open>true\<close> becomes the boolean true, attached to the open container or
  returned; the word \<open>false\<close> reaches the final \<open>assert False\<close> whatever the stack is.\<close>

lemma parse_token_true:
  "parse_token (WordToken ''true'') stack = Inr (attach (BooleanObject True) stack)"
  by (simp add: parse_token_def)

lemma parse_token_false: "parse_token (WordToken ''false'') stack = Inl AssertionError"
  by (simp add: parse_token_def)

text \<open>C1 (the claim fails on the code): the claim asks that the word \<open>false\<close> resolve to the
  boolean false. Parsing the bytes \<open>false\<close> (followed by a space), or an array that holds
  the word \<open>false\<close>, raises \<open>AssertionError\<close>, while \<open>true\<close> parses as claimed.\<close>

theorem parse_false_raises:
  "fst (read_object \<lparr>buf = ''false '', pos = 0\<rparr>) = Inl AssertionError \<and>
   fst (read_object \<lparr>buf = ''[true false]'', pos = 0\<rparr>) = Inl AssertionError \<and>
   fst (read_object \<lparr>buf = ''true '', pos = 0\<rparr>) = Inr (BooleanObject True) \<and>
   fst (read_object \<lparr>buf = ''[true]'', pos = 0\<rparr>) = Inr (ArrayObject [BooleanObject True])"
  by (simp add: parse_eval tokenizer_eval)


section \<open>Properties of indirect-object resolution\<close>

text \<open>C10: indirect-object resolution ignores the generation number. Two references with
  the same object number and any two generation numbers dereference alike in every
  document state and at every recursion limit: same result, same document afterwards.\<close>

theorem deref_object_ignores_generation:
  "deref_object limit (IndirectRef obj_num gen_num) doc =
   deref_object limit (IndirectRef obj_num gen_num') doc"
  by (simp add: deref_object_def deref_object_with_def get_indirect_object_with_def ref_obj_num_def)

text \<open>The same for two references whose object numbers are written differently but are
  the same number.\<close>

lemma get_indirect_object_with_key:
  assumes "ref_obj_num ref = Inr n"
  shows "get_indirect_object_with rio ref doc =
     (\<lambda>key found.
        case map_of (obj_by_num doc) key of
          Some obj \<Rightarrow> (Inr obj, doc)
        | None \<Rightarrow>
            (case found of
               None \<Rightarrow> (Inl KeyError, doc)
             | Some entry \<Rightarrow>
                 (case py_int (byte_offset entry) of
                    Inl e \<Rightarrow> (Inl e, doc)
                  | Inr offset \<Rightarrow>
                      (case rio offset doc of
                         (Inl e, doc1) \<Rightarrow> (Inl e, doc1)
                       | (Inr obj, doc1) \<Rightarrow>
                           (Inr obj, doc1\<lparr>obj_by_num := AList.update key obj (obj_by_num doc1)\<rparr>)))))
       (num_key n) (xref_lookup (xref_table doc) n)"
  by (simp add: get_indirect_object_with_def assms)

lemma deref_object_same_number:
  assumes "ref_obj_num ref = Inr n" and "ref_obj_num ref' = Inr n'" and "num_key n = num_key n'"
  shows "deref_object limit ref doc = deref_object limit ref' doc"
proof -
  have "xref_lookup (xref_table doc) n = xref_lookup (xref_table doc) n'"
    by (simp add: xref_lookup_def assms(3))
  with assms(3) have "get_indirect_object_with (read_indirect_object limit) ref doc =
      get_indirect_object_with (read_indirect_object limit) ref' doc"
    by (simp only: get_indirect_object_with_key [OF assms(1)] get_indirect_object_with_key [OF assms(2)])
  then show ?thesis
    by (simp only: deref_object_def deref_object_with_def)
qed

lemma cache_in_xref_new: "cache_in_xref (new_PDFDocument s i sz r e t)"
  by (simp add: cache_in_xref_def new_PDFDocument_def)

lemma xref_lookup_None: "xref_lookup t n = None \<longleftrightarrow> num_key n \<notin> (of_int \<circ> fst) ` set t"
  by (force simp: xref_lookup_def map_of_eq_None_iff image_iff)

lemma absent_not_cached:
  assumes "xref_lookup (xref_table doc) n = None" and "cache_in_xref doc"
  shows "map_of (obj_by_num doc) (num_key n) = None"
  using assms unfolding xref_lookup_None cache_in_xref_def map_of_eq_None_iff by blast

text \<open>C5: for every indirect reference whose object number is absent from the
  cross-reference table, \<open>deref_object\<close> returns the null object and leaves the document
  as it was (nothing is added to the cache, the byte source is not touched).\<close>

theorem deref_object_absent:
  assumes "ref_obj_num ref = Inr n"
    and "xref_lookup (xref_table doc) n = None"
    and "cache_in_xref doc"
  shows "deref_object limit ref doc = (Inr null_object_instance, doc)"
  using assms(1,2) absent_not_cached [OF assms(2,3)]
  by (simp add: deref_object_def deref_object_with_def get_indirect_object_with_def)

text \<open>The methods that resolve indirect objects never change the cross-reference table
  and keep the cache within it, whether they return or raise.\<close>

lemma same_cache_refl [simp]: "same_cache doc doc"
  by (simp add: same_cache_def)

lemma same_cache_trans: "same_cache a b \<Longrightarrow> same_cache b c \<Longrightarrow> same_cache a c"
  by (simp add: same_cache_def)

lemma keeps_cacheD: "keeps_cache f \<Longrightarrow> f x doc = (r, doc') \<Longrightarrow> same_cache doc doc'"
  unfolding keeps_cache_def by (metis snd_conv)

lemma keeps_cacheI: "(\<And>x doc r doc'. f x doc = (r, doc') \<Longrightarrow> same_cache doc doc') \<Longrightarrow> keeps_cache f"
  unfolding keeps_cache_def by (metis prod.collapse)

lemma same_cacheI:
  "xref_table doc' = xref_table doc \<Longrightarrow> obj_by_num doc' = obj_by_num doc \<Longrightarrow> same_cache doc doc'"
  by (simp add: same_cache_def cache_in_xref_def)

lemma same_cache_on_parser: "on_parser f doc = (r, doc') \<Longrightarrow> same_cache doc doc'"
  by (rule same_cacheI) (auto simp: on_parser_def split: prod.splits)

lemma same_cache_restore_position: "restore_position ret doc = (r, doc') \<Longrightarrow> same_cache doc doc'"
  by (rule same_cacheI) (auto simp: restore_position_def split: prod.splits sum.splits if_splits)

lemma same_cache_offsets [simp]: "same_cache doc (doc\<lparr>offsets := os\<rparr>)"
  by (simp add: same_cache_def cache_in_xref_def)

lemma same_cache_update:
  assumes "xref_lookup (xref_table doc) n = Some entry"
  shows "same_cache doc (doc\<lparr>obj_by_num := AList.update (num_key n) obj (obj_by_num doc)\<rparr>)"
proof -
  from assms have "num_key n \<in> (of_int \<circ> fst) ` set (xref_table doc)"
    using xref_lookup_None [of "xref_table doc" n] by auto
  then show ?thesis
    by (auto simp: same_cache_def cache_in_xref_def dom_update)
qed

lemma keeps_cache_get_indirect_object_with:
  assumes "keeps_cache rio"
  shows "keeps_cache (get_indirect_object_with rio)"
proof (rule keeps_cacheI)
  fix ref doc r doc'
  assume g: "get_indirect_object_with rio ref doc = (r, doc')"
  show "same_cache doc doc'"
  proof (cases "\<exists>n entry offset obj doc1.
      ref_obj_num ref = Inr n \<and> map_of (obj_by_num doc) (num_key n) = None \<and>
      xref_lookup (xref_table doc) n = Some entry \<and> py_int (byte_offset entry) = Inr offset \<and>
      rio offset doc = (Inr obj, doc1)")
    case True
    then obtain n entry offset obj doc1 where
      n: "ref_obj_num ref = Inr n" "map_of (obj_by_num doc) (num_key n) = None"
        "xref_lookup (xref_table doc) n = Some entry" "py_int (byte_offset entry) = Inr offset"
      and rio: "rio offset doc = (Inr obj, doc1)"
      by blast
    from keeps_cacheD [OF assms rio] have 1: "same_cache doc doc1" .
    then have "xref_lookup (xref_table doc1) n = Some entry"
      using n(3) by (simp add: same_cache_def)
    then have 2: "same_cache doc1
        (doc1\<lparr>obj_by_num := AList.update (num_key n) obj (obj_by_num doc1)\<rparr>)"
      by (rule same_cache_update)
    from g n rio have "doc' = doc1\<lparr>obj_by_num := AList.update (num_key n) obj (obj_by_num doc1)\<rparr>"
      by (simp add: get_indirect_object_with_def)
    with same_cache_trans [OF 1 2] show ?thesis
      by simp
  next
    case False
    have "doc' = doc \<or> (\<exists>offset e. rio offset doc = (Inl e, doc'))"
      using g False
      by (auto simp: get_indirect_object_with_def split: sum.splits option.splits prod.splits)
    then show ?thesis
      using keeps_cacheD [OF assms] by auto
  qed
qed

lemma keeps_cache_deref_object_with:
  assumes "keeps_cache rio"
  shows "keeps_cache (deref_object_with rio)"
proof (rule keeps_cacheI)
  fix obj doc r doc'
  assume "deref_object_with rio obj doc = (r, doc')"
  then have "\<exists>r'. get_indirect_object_with rio obj doc = (r', doc')"
    by (auto simp: deref_object_with_def split: prod.splits sum.splits if_splits)
  then show "same_cache doc doc'"
    using keeps_cacheD [OF keeps_cache_get_indirect_object_with [OF assms]] by blast
qed

lemma keeps_cache_get_object_with:
  assumes "keeps_cache rio"
  shows "keeps_cache (get_object_with rio)"
proof (rule keeps_cacheI)
  fix obj doc r doc'
  assume "get_object_with rio obj doc = (r, doc')"
  then have "doc' = doc \<or> deref_object_with rio obj doc = (r, doc')"
    by (auto simp: get_object_with_def split: pyval.splits)
  then show "same_cache doc doc'"
    using keeps_cacheD [OF keeps_cache_deref_object_with [OF assms]] by auto
qed

lemma keeps_cache_read_stream_with:
  assumes "keeps_cache get_obj"
  shows "keeps_cache (read_stream_with get_obj)"
proof (rule keeps_cacheI)
  fix obj doc r doc'
  assume "read_stream_with get_obj obj doc = (r, doc')"
  then have "doc' = doc \<or> (\<exists>x r1. get_obj x doc = (r1, doc')) \<or>
      (\<exists>x r1 doc1 len r2. get_obj x doc = (r1, doc1) \<and>
         on_parser (skip_payload len) doc1 = (r2, doc'))"
    by (auto simp: read_stream_with_def Let_def split: pyval.splits sum.splits prod.splits)
  then consider "doc' = doc"
    | x r1 where "get_obj x doc = (r1, doc')"
    | x r1 doc1 len r2 where "get_obj x doc = (r1, doc1)"
        "on_parser (skip_payload len) doc1 = (r2, doc')"
    by blast
  then show "same_cache doc doc'"
  proof cases
    case 1
    then show ?thesis by simp
  next
    case 2
    then show ?thesis by (rule keeps_cacheD [OF assms])
  next
    case 3
    from same_cache_trans [OF keeps_cacheD [OF assms 3(1)] same_cache_on_parser [OF 3(2)]]
    show ?thesis .
  qed
qed

lemma keeps_cache_read_indirect_object_with:
  assumes "keeps_cache get_obj"
  shows "keeps_cache (read_indirect_object_with get_obj)"
proof (rule keeps_cacheI)
  fix offset and doc :: PDFDocument and r doc'
  let ?doc0 = "doc\<lparr>offsets := offsets doc @ [tell (parser doc)]\<rparr>"
  assume rio: "read_indirect_object_with get_obj offset doc = (r, doc')"
  obtain r1 doc1 where s1: "on_parser (seek offset) ?doc0 = (r1, doc1)"
    by (cases "on_parser (seek offset) ?doc0")
  obtain r2 doc2 where s2: "on_parser read_obj_line doc1 = (r2, doc2)"
    by (cases "on_parser read_obj_line doc1")
  obtain r3 doc3 where s3: "on_parser read_object doc2 = (r3, doc3)"
    by (cases "on_parser read_object doc2")
  obtain w doc4 where s4: "on_parser read_endobj_word doc3 = (w, doc4)"
    by (cases "on_parser read_endobj_word doc3")
  have 0: "same_cache doc ?doc0" by simp
  note 1 = same_cache_trans [OF 0 same_cache_on_parser [OF s1]]
  note 2 = same_cache_trans [OF 1 same_cache_on_parser [OF s2]]
  note 3 = same_cache_trans [OF 2 same_cache_on_parser [OF s3]]
  note 4 = same_cache_trans [OF 3 same_cache_on_parser [OF s4]]
  from rio s1 s2 s3 s4 have "doc' \<in> {doc1, doc2, doc3, doc4} \<or>
      (\<exists>ret. restore_position ret doc4 = (r, doc')) \<or>
      (\<exists>obj r5 doc5. read_stream_with get_obj obj doc4 = (r5, doc5) \<and>
         (doc' = doc5 \<or> (\<exists>ret. restore_position ret doc5 = (r, doc'))))"
    by (auto simp: read_indirect_object_with_def Let_def split: sum.splits prod.splits if_splits)
  then consider "doc' \<in> {doc1, doc2, doc3, doc4}"
    | ret where "restore_position ret doc4 = (r, doc')"
    | obj r5 where "read_stream_with get_obj obj doc4 = (r5, doc')"
    | obj r5 doc5 ret where "read_stream_with get_obj obj doc4 = (r5, doc5)"
        "restore_position ret doc5 = (r, doc')"
    by blast
  then show "same_cache doc doc'"
  proof cases
    case 1
    with \<open>same_cache doc doc1\<close> 2 3 4 show ?thesis by auto
  next
    case 2
    from same_cache_trans [OF 4 same_cache_restore_position [OF 2]] show ?thesis .
  next
    case 3
    from same_cache_trans [OF 4 keeps_cacheD [OF keeps_cache_read_stream_with [OF assms] 3]]
    show ?thesis .
  next
    case 4
    note 5 = same_cache_trans [OF \<open>same_cache doc doc4\<close>
        keeps_cacheD [OF keeps_cache_read_stream_with [OF assms] 4(1)]]
    from same_cache_trans [OF 5 same_cache_restore_position [OF 4(2)]] show ?thesis .
  qed
qed

lemma keeps_cache_read_indirect_object: "keeps_cache (read_indirect_object limit)"
proof (induction limit)
  case 0
  show ?case by (simp add: keeps_cache_def)
next
  case (Suc limit)
  then show ?case
    by (simp add: keeps_cache_read_indirect_object_with keeps_cache_get_object_with)
qed

lemma deref_object_keeps_cache:
  "cache_in_xref doc \<Longrightarrow> cache_in_xref (snd (deref_object limit ref doc))"
  using keeps_cache_deref_object_with [OF keeps_cache_read_indirect_object, of limit]
  by (simp add: keeps_cache_def same_cache_def deref_object_def)

lemma returns_in_placeD:
  assumes "returns_in_place f" and "f x doc = (Inr r, doc')"
  shows "tell (parser doc') = tell (parser doc)" and "offsets doc' = offsets doc"
  using assms unfolding returns_in_place_def by blast+

lemma get_indirect_object_with_in_place:
  assumes "returns_in_place rio"
  shows "returns_in_place (get_indirect_object_with rio)"
  unfolding returns_in_place_def
proof (intro allI impI)
  fix ref doc r doc'
  assume "get_indirect_object_with rio ref doc = (Inr r, doc')"
  then have "doc' = doc \<or>
      (\<exists>offset doc1 key. rio offset doc = (Inr r, doc1) \<and>
         doc' = doc1\<lparr>obj_by_num := AList.update key r (obj_by_num doc1)\<rparr>)"
    by (auto simp: get_indirect_object_with_def split: sum.splits option.splits prod.splits)
  then show "tell (parser doc') = tell (parser doc) \<and> offsets doc' = offsets doc"
    using returns_in_placeD [OF assms] by auto
qed

text \<open>\<open>get_object\<close> may return normally after a \<open>KeyError\<close> that left the position moved and
  a stale entry on the stack; then its result is the null object, never a number.\<close>

lemma get_object_with_number_in_place:
  assumes "returns_in_place rio" and "get_object_with rio obj doc = (Inr (NumberObject bs), doc')"
  shows "tell (parser doc') = tell (parser doc) \<and> offsets doc' = offsets doc"
proof -
  from assms(2) have "doc' = doc \<or>
      (\<exists>ind. get_indirect_object_with rio obj doc = (Inr ind, doc'))"
    by (auto simp: get_object_with_def deref_object_with_def
        split: pyval.splits sum.splits prod.splits if_splits)
  then show ?thesis
    using returns_in_placeD [OF get_indirect_object_with_in_place [OF assms(1)]] by auto
qed

lemma on_parser_offsets: "on_parser f doc = (r, doc') \<Longrightarrow> offsets doc' = offsets doc"
  by (auto simp: on_parser_def split: prod.splits)

lemma read_stream_with_offsets:
  assumes "\<And>x doc bs doc'. get_obj x doc = (Inr (NumberObject bs), doc') \<Longrightarrow>
      offsets doc' = offsets doc"
    and "read_stream_with get_obj obj doc = (Inr r, doc')"
  shows "offsets doc' = offsets doc"
proof -
  from assms(2) obtain x bs doc1 len r2 where
    "get_obj x doc = (Inr (NumberObject bs), doc1)"
    "on_parser (skip_payload len) doc1 = (r2, doc')"
    by (auto simp: read_stream_with_def Let_def split: pyval.splits sum.splits prod.splits)
  with assms(1) on_parser_offsets show ?thesis
    by metis
qed

lemma restore_position_returns:
  assumes "restore_position ret doc = (Inr r, doc')"
  shows "offsets doc \<noteq> []" and "tell (parser doc') = last (offsets doc)"
    and "offsets doc' = butlast (offsets doc)"
  using assms
  by (auto simp: restore_position_def seek_def tell_def split: if_splits prod.splits sum.splits)

lemma read_indirect_object_with_in_place:
  assumes "\<And>x doc bs doc'. get_obj x doc = (Inr (NumberObject bs), doc') \<Longrightarrow>
      offsets doc' = offsets doc"
  shows "returns_in_place (read_indirect_object_with get_obj)"
  unfolding returns_in_place_def
proof (intro allI impI)
  fix offset and doc :: PDFDocument and r doc'
  let ?doc0 = "doc\<lparr>offsets := offsets doc @ [tell (parser doc)]\<rparr>"
  assume rio: "read_indirect_object_with get_obj offset doc = (Inr r, doc')"
  obtain r1 doc1 where s1: "on_parser (seek offset) ?doc0 = (r1, doc1)"
    by (cases "on_parser (seek offset) ?doc0")
  obtain r2 doc2 where s2: "on_parser read_obj_line doc1 = (r2, doc2)"
    by (cases "on_parser read_obj_line doc1")
  obtain r3 doc3 where s3: "on_parser read_object doc2 = (r3, doc3)"
    by (cases "on_parser read_object doc2")
  obtain w doc4 where s4: "on_parser read_endobj_word doc3 = (w, doc4)"
    by (cases "on_parser read_endobj_word doc3")
  from s1 s2 s3 s4 have o4: "offsets doc4 = offsets doc @ [tell (parser doc)]"
    by (simp add: on_parser_offsets)
  from rio s1 s2 s3 s4 have "\<exists>doc5 ret.
      (doc5 = doc4 \<or> (\<exists>obj r5. read_stream_with get_obj obj doc4 = (Inr r5, doc5))) \<and>
      restore_position ret doc5 = (Inr r, doc')"
    by (auto simp: read_indirect_object_with_def Let_def split: sum.splits prod.splits if_splits)
  then obtain doc5 ret where
    doc5: "doc5 = doc4 \<or> (\<exists>obj r5. read_stream_with get_obj obj doc4 = (Inr r5, doc5))"
    and ret: "restore_position ret doc5 = (Inr r, doc')"
    by blast
  from doc5 o4 have "offsets doc5 = offsets doc @ [tell (parser doc)]"
    using read_stream_with_offsets [OF assms] by auto
  with restore_position_returns [OF ret]
  show "tell (parser doc') = tell (parser doc) \<and> offsets doc' = offsets doc"
    by simp
qed

lemma read_indirect_object_in_place: "returns_in_place (read_indirect_object limit)"
proof (induction limit)
  case 0
  show ?case by (simp add: returns_in_place_def)
next
  case (Suc limit)
  show ?case
    unfolding read_indirect_object.simps
    by (rule read_indirect_object_with_in_place)
       (use get_object_with_number_in_place [OF Suc] in blast)
qed

text \<open>C9: for every call of \<open>read_indirect_object\<close> that returns normally, the position of
  the byte source after the call is its position before the call, also when an indirect
  \<open>/Length\<close> was dereferenced in between (at any depth the recursion limit allows).\<close>

theorem read_indirect_object_restores_position:
  assumes "read_indirect_object limit offset doc = (Inr obj, doc')"
  shows "tell (parser doc') = tell (parser doc)"
  using returns_in_placeD(1) [OF read_indirect_object_in_place assms] .

subsection \<open>The example of a stream with an indirect length\<close>

text \<open>Evaluation reads the file byte by byte; the file is looked up by index.\<close>

lemma nth_of_bytes: "b = bs \<Longrightarrow> b ! n = bs ! n"
  by simp

lemma stream_file_bytes:
  "stream_file = ''%PDF-1.4\<newline>1 0 obj\<newline><< /Length 2 0 R >>\<newline>stream\<newline>ABCDE\<newline>endstream\<newline>endobj\<newline>2 0 obj\<newline>5\<newline>endobj\<newline>''"
  by (simp add: stream_file_def unlines_def)

lemma stream_file_length: "length stream_file = 84"
  by (simp add: stream_file_bytes)

lemma stream_file_nonempty: "stream_file \<noteq> []"
  by (simp add: stream_file_bytes)

lemmas stream_file_eval =
  nth_of_bytes [OF stream_file_bytes] stream_file_length stream_file_nonempty

lemmas document_eval =
  read_indirect_object_with_def get_object_with_def deref_object_with_def
  get_indirect_object_with_def read_stream_with_def restore_position_def read_obj_line_def
  skip_payload_def seek_cur_num_def read_endobj_word_def on_parser_def xref_lookup_def
  ref_obj_num_def indirect_object_def value_of_def number_value_def py_int_def py_float_def
  split_sign_def strip_def digits_or_empty_def is_digit_def digit_value_def is_space_def
  split_def readline_def readline_loop.simps getitem_def num_key_def seek_def seek_cur_def
  tell_def new_PDFDocument_def

lemma read_indirect_object_numeral:
  "read_indirect_object (numeral k) = read_indirect_object (Suc (pred_numeral k))"
  by (simp add: numeral_eq_Suc)

text \<open>Reading the stream object at offset 9 resolves its length through object 2, which
  moves the byte source to offset 67 and back, and puts object 2 into the cache.\<close>

lemma stream_doc_read:
  "read_indirect_object 2 9 stream_doc =
     (Inr (StreamObject 1 0
        (DictObject [(''/Length'', IndirectRef (NumberObject ''2'') (NumberObject ''0''))])
        44 (PyInt 5)),
      stream_doc_cached)"
  by (simp add: stream_doc_cached_def stream_doc_def stream_file_eval
      read_indirect_object_numeral document_eval parse_eval tokenizer_eval)

theorem read_indirect_object_restores_position_witness:
  "read_indirect_object 2 9 stream_doc =
     (Inr (StreamObject 1 0
        (DictObject [(''/Length'', IndirectRef (NumberObject ''2'') (NumberObject ''0''))])
        44 (PyInt 5)),
      stream_doc_cached) \<and>
   tell (parser stream_doc_cached) = tell (parser stream_doc)"
  using read_indirect_object_restores_position [OF stream_doc_read] stream_doc_read
  by simp

theorem deref_object_absent_witness:
  "deref_object 5 (IndirectRef (NumberObject ''9'') (NumberObject ''0'')) stream_doc_cached =
   (Inr null_object_instance, stream_doc_cached)"
  using deref_object_absent [of "IndirectRef (NumberObject ''9'') (NumberObject ''0'')" "PyInt 9"
      stream_doc_cached 5]
  by (simp add: cache_in_xref_def stream_doc_cached_def stream_doc_def document_eval)


section \<open>Properties of the merged cross-reference table\<close>

lemma fill_missing_lookup:
  "map_of (fill_missing other t) n =
     (case map_of t n of Some entry \<Rightarrow> Some entry | None \<Rightarrow> map_of other n)"
proof (induction other arbitrary: t)
  case Nil
  show ?case by (simp split: option.split)
next
  case (Cons kv other)
  obtain k v where kv: "kv = (k, v)" by (cases kv)
  show ?case
    unfolding kv fill_missing.simps Cons.IH
    by (auto simp: update_conv' split: option.splits)
qed

lemma fill_all_lookup:
  "map_of (foldl (\<lambda>t other. fill_missing other t) t older) n = newest_entry (t # older) n"
proof (induction older arbitrary: t)
  case Nil
  show ?case by (simp split: option.split)
next
  case (Cons other older)
  show ?case
    by (simp add: Cons.IH fill_missing_lookup split: option.splits)
qed

text \<open>Whenever the chain is finite and every section of it can be read, the loop ends
  and returns the table filled from the sections in chain order.\<close>

lemma prev_loop_returns:
  assumes "prev_chain trailer_dict s older s'"
  shows "prev_loop trailer_dict t s = Some (Inr (foldl (\<lambda>t other. fill_missing other t) t older), s')"
  using assms
proof (induction arbitrary: t rule: prev_chain.induct)
  case (chain_end trailer_dict s)
  then show ?case
    by (subst prev_loop.simps) simp
next
  case (chain_step trailer_dict prev other_start_xref s other_xref_table s1 trailer_dict' s2 older s3)
  show ?case
    by (subst prev_loop.simps) (simp add: chain_step.hyps chain_step.IH)
qed

text \<open>Conversely, when the loop returns a table, it has followed such a chain.\<close>

lemma prev_loop_chain:
  assumes "prev_loop trailer_dict t s = Some (Inr merged, s')"
  shows "\<exists>older. prev_chain trailer_dict s older s' \<and>
     merged = foldl (\<lambda>t other. fill_missing other t) t older"
proof -
  let ?P = "\<lambda>trailer_dict t s (y :: (error + xref) \<times> bytes_io).
      \<forall>merged s'. y = (Inr merged, s') \<longrightarrow>
      (\<exists>older. prev_chain trailer_dict s older s' \<and>
         merged = foldl (\<lambda>t other. fill_missing other t) t older)"
  have "?P trailer_dict t s (Inr merged, s')"
  proof (rule prev_loop.raw_induct [where P = ?P, OF _ assms], goal_cases)
    case (1 loop trailer_dict t s y)
    show ?case
    proof (intro allI impI)
      fix merged s'
      assume y: "y = (Inr merged, s')"
      show "\<exists>older. prev_chain trailer_dict s older s' \<and>
          merged = foldl (\<lambda>t other. fill_missing other t) t older"
      proof (cases "getitem trailer_dict ''/Prev''")
        case (Inl e)
        with 1(2) y have "e = KeyError" "merged = t" "s' = s"
          by (auto split: if_splits)
        with Inl have "prev_chain trailer_dict s [] s'"
          by (auto intro: chain_end)
        with \<open>merged = t\<close> show ?thesis
          by (intro exI [of _ "[]"]) simp
      next
        case (Inr prev)
        with 1(2) y obtain other_start_xref other s1 trailer_dict' s2 where
          st: "value_of prev = Inr other_start_xref"
            "get_xref_table other_start_xref s = (Inr other, s1)"
            "read_dict s1 = (Inr trailer_dict', s2)"
            "loop trailer_dict' (fill_missing other t) s2 = Some (Inr merged, s')"
          by (auto split: sum.splits prod.splits)
        from 1(1) [OF st(4)] obtain older where
          older: "prev_chain trailer_dict' s2 older s'"
            "merged = foldl (\<lambda>t other. fill_missing other t) (fill_missing other t) older"
          by blast
        from chain_step [OF Inr st(1) st(2) st(3) older(1)] older(2) show ?thesis
          by (intro exI [of _ "other # older"]) simp
      qed
    qed
  qed
  then show ?thesis
    by blast
qed

text \<open>C2: when \<open>parse_document\<close> returns a document, it has read the newest section at
  \<open>start_xref\<close> and the older sections along the \<open>/Prev\<close> chain, and for every object
  number the merged table holds the entry of the newest section that mentions the
  number (none if no section does): an older section only fills a number that no newer
  section has.\<close>

theorem parse_document_xref_merge:
  assumes "parse_document start_xref s = Some (Inr doc)"
  shows "\<exists>newest s1 trailer_dict s2 older.
     get_xref_table (PyInt start_xref) s = (Inr newest, s1) \<and>
     read_dict s1 = (Inr trailer_dict, s2) \<and>
     prev_chain trailer_dict s2 older (parser doc) \<and>
     (\<forall>n. map_of (xref_table doc) n = newest_entry (newest # older) n)"
proof -
  from assms obtain newest s1 trailer_dict s2 sz rt enc di merged s3 where
    st: "get_xref_table (PyInt start_xref) s = (Inr newest, s1)"
      "read_dict s1 = (Inr trailer_dict, s2)"
      "prev_loop trailer_dict newest s2 = Some (Inr merged, s3)"
      "doc = new_PDFDocument s3 di sz rt enc merged"
    by (auto simp: parse_document_def split: prod.splits sum.splits option.splits)
  from prev_loop_chain [OF st(3)] obtain older where
    older: "prev_chain trailer_dict s2 older s3"
      "merged = foldl (\<lambda>t other. fill_missing other t) newest older"
    by blast
  have "parser doc = s3" "xref_table doc = merged"
    by (simp_all add: st(4) new_PDFDocument_def)
  with st(1,2) older fill_all_lookup [of newest older] show ?thesis
    by auto
qed

text \<open>And it does return whenever the first section and its trailer can be read and the
  chain is finite.\<close>

lemma parse_document_returns:
  assumes "get_xref_table (PyInt start_xref) s = (Inr newest, s1)"
    and "read_dict s1 = (Inr trailer_dict, s2)"
    and "size_and_root trailer_dict = Inr (sz, rt)"
    and "encrypt_and_id trailer_dict = Inr (enc, di)"
    and "prev_chain trailer_dict s2 older s3"
  shows "parse_document start_xref s =
     Some (Inr (new_PDFDocument s3 di sz rt enc (foldl (\<lambda>t other. fill_missing other t) newest older)))"
  using assms(1-4) prev_loop_returns [OF assms(5)]
  by (simp add: parse_document_def)

subsection \<open>The example of two revisions\<close>

lemma two_revisions_bytes:
  "two_revisions = ''%PDF-1.4\<newline>xref\<newline>5 2\<newline>0000000050 00000 n \<newline>0000000060 00000 n \<newline>trailer\<newline><< /Size 7 /Root 1 0 R >>\<newline>xref\<newline>5 1\<newline>0000000100 00000 n \<newline>trailer\<newline><< /Size 7 /Root 1 0 R /Prev 9 >>\<newline>''"
  by (simp add: two_revisions_def unlines_def)

lemma two_revisions_length: "length two_revisions = 163"
  by (simp add: two_revisions_bytes)

lemma two_revisions_nonempty: "two_revisions \<noteq> []"
  by (simp add: two_revisions_bytes)

lemmas two_revisions_eval =
  nth_of_bytes [OF two_revisions_bytes] two_revisions_length two_revisions_nonempty

lemma xref_entries_numeral:
  "xref_entries i (numeral k) t s = xref_entries i (Suc (pred_numeral k)) t s"
  by (simp add: numeral_eq_Suc)

lemmas xref_eval =
  parse_document_def prev_loop.simps get_xref_table_def xref_loop.simps subsection_header_def
  read_dict_def seek_num_def size_and_root_def encrypt_and_id_def xref_entries_numeral

text \<open>From the newest section at offset 92, \<open>parse_document\<close> reads both sections: the
  object 5 keeps the entry of the newest section, the object 6 is filled from the older
  one.\<close>

lemma two_revisions_parse:
  "parse_document 92 \<lparr>buf = two_revisions, pos = 0\<rparr> =
     Some (Inr (new_PDFDocument \<lparr>buf = two_revisions, pos = 91\<rparr> None (PyInt 7)
       (IndirectRef (NumberObject ''1'') (NumberObject ''0'')) None
       [(5, \<lparr>byte_offset = ''0000000100'', gen_number = ''00000'', kw = ''n''\<rparr>),
        (6, \<lparr>byte_offset = ''0000000060'', gen_number = ''00000'', kw = ''n''\<rparr>)]))"
  by (simp add: two_revisions_eval xref_eval document_eval parse_eval tokenizer_eval)

theorem parse_document_xref_merge_witness:
  "\<exists>doc newest s1 trailer_dict s2 older.
     parse_document 92 \<lparr>buf = two_revisions, pos = 0\<rparr> = Some (Inr doc) \<and>
     xref_table doc =
       [(5, \<lparr>byte_offset = ''0000000100'', gen_number = ''00000'', kw = ''n''\<rparr>),
        (6, \<lparr>byte_offset = ''0000000060'', gen_number = ''00000'', kw = ''n''\<rparr>)] \<and>
     get_xref_table (PyInt 92) \<lparr>buf = two_revisions, pos = 0\<rparr> = (Inr newest, s1) \<and>
     read_dict s1 = (Inr trailer_dict, s2) \<and>
     prev_chain trailer_dict s2 older (parser doc) \<and>
     (\<forall>n. map_of (xref_table doc) n = newest_entry (newest # older) n)"
  using parse_document_xref_merge [OF two_revisions_parse] two_revisions_parse
  by (auto simp: new_PDFDocument_def)

end
